theory Spec2Isabelle
  imports Complex_Main "HOL-Library.Multiset"
begin

section \<open>Latin for Fun: the round engine of App.tsx\<close>

text \<open>
  The development embeds the game logic of \<^verbatim>\<open>src/App.tsx\<close> and the lexicon of
  \<^verbatim>\<open>src/data\<close>. JavaScript numbers are modelled as reals where the code computes
  with fractions (the multipliers 0.85 and 1.2, the factor 1.6) and as integers where the
  code only counts; React state is a record that every handler takes and returns;
  \<^verbatim>\<open>setTimeout\<close> callbacks are returned as values and fired by a function of their
  own; \<^verbatim>\<open>Math.random()\<close> is an explicit source of reals. The code computes in
  doubles; the seconds and the combo it passes to \<^verbatim>\<open>xpFor\<close> are whole numbers, for
  which the floor and the rounding of the doubles give the integers of the exact
  arithmetic used here. A state variable that holds the seconds or the score is a whole
  number or no number at all (\<^verbatim>\<open>undefined\<close> or \<^verbatim>\<open>NaN\<close>), here \<open>None\<close>: both
  behave alike in every operation that the code applies to them.
\<close>

subsection \<open>Helpers\<close>

text \<open>\<^verbatim>\<open>clamp(n, a, b) = Math.max(a, Math.min(b, n))\<close>\<close>

definition clamp :: "real \<Rightarrow> real \<Rightarrow> real \<Rightarrow> real" where
  "clamp n a b = max a (min b n)"

text \<open>\<^verbatim>\<open>Math.round\<close>: the nearest integer, a tie going up.\<close>

definition js_round :: "real \<Rightarrow> int" where
  "js_round x = \<lfloor>x + 1 / 2\<rfloor>"

text \<open>\<^verbatim>\<open>arr.slice(0, Math.max(0, arr.length - 1))\<close>\<close>

definition popLast :: "'a list \<Rightarrow> 'a list" where
  "popLast arr = take (nat (max 0 (int (length arr) - 1))) arr"

text \<open>
  A number of the state. The sum with \<^verbatim>\<open>NaN\<close> is \<^verbatim>\<open>NaN\<close>, taking one from
  \<^verbatim>\<open>undefined\<close> or \<^verbatim>\<open>NaN\<close> gives \<^verbatim>\<open>NaN\<close>, and every comparison with
  \<^verbatim>\<open>undefined\<close> or \<^verbatim>\<open>NaN\<close> is false.
\<close>

type_synonym jsnum = "int option"

definition js_add :: "jsnum \<Rightarrow> jsnum \<Rightarrow> jsnum" where
  "js_add a b = (case (a, b) of (Some x, Some y) \<Rightarrow> Some (x + y) | _ \<Rightarrow> None)"

definition js_pred :: "jsnum \<Rightarrow> jsnum" where
  "js_pred a = map_option (\<lambda>x. x - 1) a"

definition js_le :: "jsnum \<Rightarrow> int \<Rightarrow> bool" where
  "js_le a k = (case a of None \<Rightarrow> False | Some x \<Rightarrow> x \<le> k)"

text \<open>\<^verbatim>\<open>len >= k\<close> for a length that may be \<^verbatim>\<open>undefined\<close>.\<close>

definition at_least :: "nat option \<Rightarrow> nat \<Rightarrow> bool" where
  "at_least a k = (case a of None \<Rightarrow> False | Some x \<Rightarrow> x \<ge> k)"

subsection \<open>Difficulty table and scoring\<close>

record Conf =
  time :: int
  roundSize :: nat
  xpMult :: real
  sentenceLen :: nat

definition DIFFICULTY :: "string \<Rightarrow> Conf option" where
  "DIFFICULTY k =
     (if k = ''easy'' then Some \<lparr>time = 28, roundSize = 4, xpMult = 85 / 100, sentenceLen = 3\<rparr>
      else if k = ''normal'' then Some \<lparr>time = 22, roundSize = 5, xpMult = 1, sentenceLen = 3\<rparr>
      else if k = ''hard'' then Some \<lparr>time = 18, roundSize = 6, xpMult = 12 / 10, sentenceLen = 4\<rparr>
      else None)"

text \<open>
  \<^verbatim>\<open>DIFFICULTY\<close> is an object literal, so besides its own three keys a lookup finds the
  properties that every object inherits from \<^verbatim>\<open>Object.prototype\<close>: functions, and under
  \<^verbatim>\<open>__proto__\<close> the prototype itself. For every other key the lookup is
  \<^verbatim>\<open>undefined\<close>.
\<close>

definition inherited_name :: "string \<Rightarrow> bool" where
  "inherited_name k =
     (k \<in> set [''constructor'', ''__defineGetter__'', ''__defineSetter__'', ''hasOwnProperty'',
                ''__lookupGetter__'', ''__lookupSetter__'', ''isPrototypeOf'',
                ''propertyIsEnumerable'', ''toString'', ''valueOf'', ''__proto__'',
                ''toLocaleString''])"

text \<open>
  \<^verbatim>\<open>DIFFICULTY[difficultyKey] || DIFFICULTY.normal\<close>. An inherited member is truthy, so
  \<^verbatim>\<open>||\<close> keeps it; it has none of the properties \<^verbatim>\<open>time\<close>, \<^verbatim>\<open>roundSize\<close>,
  \<^verbatim>\<open>xpMult\<close>, \<^verbatim>\<open>sentenceLen\<close>, and reading them gives \<^verbatim>\<open>undefined\<close>. This value
  is \<open>None\<close>. The key comes from the stored \<^verbatim>\<open>player.difficulty\<close>, which nothing
  validates.
\<close>

definition conf_of :: "string \<Rightarrow> Conf option" where
  "conf_of difficultyKey =
     (case DIFFICULTY difficultyKey of
        Some d \<Rightarrow> Some d
      | None \<Rightarrow>
          if inherited_name difficultyKey then None
          else Some \<lparr>time = 22, roundSize = 5, xpMult = 1, sentenceLen = 3\<rparr>)"

text \<open>
  The result is \<^verbatim>\<open>NaN\<close>, here \<open>None\<close>, when the multiplier is \<^verbatim>\<open>undefined\<close> or when
  the speed bonus is computed from seconds that are no number: \<^verbatim>\<open>Math.floor\<close>,
  \<^verbatim>\<open>Math.min\<close>, \<^verbatim>\<open>Math.max\<close>, the sum, the product and \<^verbatim>\<open>Math.round\<close> all hand
  \<^verbatim>\<open>NaN\<close> on.
\<close>

definition xpFor :: "bool \<Rightarrow> real option \<Rightarrow> real \<Rightarrow> string \<Rightarrow> jsnum" where
  "xpFor correct secondsLeft combo difficultyKey =
     (let d = conf_of difficultyKey;
          base = (if correct then 28 else 0);
          speed = (if correct
                   then map_option (\<lambda>s. clamp (of_int \<lfloor>s * (16 / 10)\<rfloor>) 0 45) secondsLeft
                   else Some 0);
          comboBonus = (if correct then clamp (combo * 7) 0 70 else 0)
      in case (speed, map_option xpMult d) of
           (Some sp, Some factor) \<Rightarrow> Some (js_round ((base + sp + comboBonus) * factor))
         | _ \<Rightarrow> None)"

subsection \<open>Progression: reward unlocks and the lifetime record\<close>

text \<open>
  The catalog \<^verbatim>\<open>BIRD_CARDS\<close> is imported from \<^verbatim>\<open>./data/birds\<close>, which is not
  part of the sources at hand; the functions that read it take it as the parameter
  \<open>cards\<close>. The fields are those the application reads from a card.
\<close>

record BirdCard =
  bird_id :: string
  common :: string
  sci :: string
  badge :: string
  fun_fact :: string

record Player =
  name :: string
  difficulty :: string

record Best =
  highScore :: int
  bestStreak :: int
  totalXP :: int

record Collection =
  unlocked :: "string list"

record Settings =
  sound :: bool

record PersistedState =
  player :: Player
  best :: Best
  collection :: Collection
  settings :: Settings

definition maybeUnlockBird :: "BirdCard list \<Rightarrow> int \<Rightarrow> string list \<Rightarrow> BirdCard option" where
  "maybeUnlockBird cards totalXP' unlocked' =
     (let threshold = 250;
          shouldHave = \<lfloor>real_of_int totalXP' / threshold\<rfloor>;
          targetCount = clamp (of_int shouldHave) 0 (real (length cards))
      in if real (length unlocked') \<ge> targetCount then None
         else (case filter (\<lambda>b. bird_id b \<notin> set unlocked') cards of
                 [] \<Rightarrow> None
               | b # _ \<Rightarrow> Some b))"

text \<open>\<^verbatim>\<open>x || 0\<close> on a number.\<close>

definition or0 :: "int \<Rightarrow> int" where
  "or0 x = (if x = 0 then 0 else x)"

text \<open>
  \<^verbatim>\<open>awardXP\<close> is the updater passed to \<^verbatim>\<open>setPersisted\<close>; the result is the next
  lifetime record together with the card handed to \<^verbatim>\<open>setNewUnlock\<close>, if any.
\<close>

definition awardXP :: "BirdCard list \<Rightarrow> PersistedState \<Rightarrow> int \<Rightarrow> int
    \<Rightarrow> PersistedState \<times> BirdCard option" where
  "awardXP cards s deltaXP comboMax =
     (let totalXP' = or0 (totalXP (best s)) + deltaXP;
          bestStreak' = max (or0 (bestStreak (best s))) comboMax;
          highScore' = max (or0 (highScore (best s))) deltaXP;
          next = s\<lparr>best := (best s)\<lparr>totalXP := totalXP', bestStreak := bestStreak',
                                    highScore := highScore'\<rparr>\<rparr>
      in case maybeUnlockBird cards totalXP' (unlocked (collection next)) of
           Some unlock \<Rightarrow>
             (next\<lparr>collection := (collection next)
                      \<lparr>unlocked := unlocked (collection next) @ [bird_id unlock]\<rparr>\<rparr>,
              Some unlock)
         | None \<Rightarrow> (next, None))"

subsection \<open>Lexicon and form resolver\<close>

datatype GramCase = nomSg | accSg

datatype Gender = gender_m | gender_f | gender_n

text \<open>
  An object literal such as \<^verbatim>\<open>{ nomSg: "puella", accSg: "puellam" }\<close> is an association
  list. The resolvers read \<^verbatim>\<open>forms\<close> through optional chaining, so an entry may lack
  \<^verbatim>\<open>forms\<close> or a cell of it, and a resolver may yield \<^verbatim>\<open>undefined\<close>, here
  \<open>None\<close>.
\<close>

record Noun =
  noun_id :: string
  noun_lemma :: string
  decl :: nat
  noun_gender :: Gender
  noun_meaning :: string
  noun_forms :: "(GramCase \<times> string) list option"
  noun_note :: "string option"

record Adjective =
  adj_id :: string
  adj_lemma :: string
  adj_meaning :: string
  adj_forms :: "(GramCase \<times> (Gender \<times> string) list) list option"
  adj_note :: "string option"

text \<open>
  Of a verb the fields \<^verbatim>\<open>pres1s\<close> and \<^verbatim>\<open>pattern\<close> are left out: they are shown
  to the player and read by no function below.
\<close>

record Verb =
  verb_id :: string
  verb_meaning :: string
  pres3s :: string

definition mkNoun :: "string \<Rightarrow> string \<Rightarrow> nat \<Rightarrow> Gender \<Rightarrow> string \<Rightarrow> string \<Rightarrow> string
    \<Rightarrow> string option \<Rightarrow> Noun" where
  "mkNoun i l d g mn nom acc nt =
     \<lparr>noun_id = i, noun_lemma = l, decl = d, noun_gender = g, noun_meaning = mn,
      noun_forms = Some [(nomSg, nom), (accSg, acc)], noun_note = nt\<rparr>"

definition mkVerb :: "string \<Rightarrow> string \<Rightarrow> string \<Rightarrow> Verb" where
  "mkVerb i mn p3 = \<lparr>verb_id = i, verb_meaning = mn, pres3s = p3\<rparr>"

definition mkAdj :: "string \<Rightarrow> string \<Rightarrow> string \<Rightarrow> string \<Rightarrow> string \<Rightarrow> string
    \<Rightarrow> string \<Rightarrow> string \<Rightarrow> string \<Rightarrow> string option \<Rightarrow> Adjective" where
  "mkAdj i l mn nm nf nn am af an nt =
     \<lparr>adj_id = i, adj_lemma = l, adj_meaning = mn,
      adj_forms = Some [(nomSg, [(gender_m, nm), (gender_f, nf), (gender_n, nn)]),
                        (accSg, [(gender_m, am), (gender_f, af), (gender_n, an)])],
      adj_note = nt\<rparr>"

definition NOUNS :: "Noun list" where
  "NOUNS = [
     mkNoun ''puella'' ''puella'' 1 gender_f ''girl'' ''puella'' ''puellam'' None,
     mkNoun ''femina'' ''femina'' 1 gender_f ''woman'' ''femina'' ''feminam'' None,
     mkNoun ''nauta'' ''nauta'' 1 gender_m ''sailor'' ''nauta'' ''nautam'' None,
     mkNoun ''aqua'' ''aqua'' 1 gender_f ''water'' ''aqua'' ''aquam'' None,
     mkNoun ''insula'' ''insula'' 1 gender_f ''island'' ''insula'' ''insulam'' None,
     mkNoun ''silva'' ''silva'' 1 gender_f ''forest'' ''silva'' ''silvam'' None,
     mkNoun ''via'' ''via'' 1 gender_f ''road'' ''via'' ''viam'' None,
     mkNoun ''porta'' ''porta'' 1 gender_f ''gate'' ''porta'' ''portam'' None,
     mkNoun ''amicus'' ''amicus'' 2 gender_m ''friend'' ''amicus'' ''amicum'' None,
     mkNoun ''servus'' ''servus'' 2 gender_m ''worker'' ''servus'' ''servum'' None,
     mkNoun ''lupus'' ''lupus'' 2 gender_m ''wolf'' ''lupus'' ''lupum'' None,
     mkNoun ''filius'' ''filius'' 2 gender_m ''son'' ''filius'' ''filium'' None,
     mkNoun ''ager'' ''ager'' 2 gender_m ''field'' ''ager'' ''agrum'' None,
     mkNoun ''dominus'' ''dominus'' 2 gender_m ''master'' ''dominus'' ''dominum'' None,
     mkNoun ''verbum'' ''verbum'' 2 gender_n ''word'' ''verbum'' ''verbum'' None,
     mkNoun ''bellum'' ''bellum'' 2 gender_n ''war'' ''bellum'' ''bellum'' None,
     mkNoun ''donum'' ''donum'' 2 gender_n ''gift'' ''donum'' ''donum'' None,
     mkNoun ''oppidum'' ''oppidum'' 2 gender_n ''town'' ''oppidum'' ''oppidum'' None,
     mkNoun ''avis'' ''avis'' 3 gender_f ''bird'' ''avis'' ''avem'' (Some ''3rd decl intro''),
     mkNoun ''rex'' ''rex'' 3 gender_m ''king'' ''rex'' ''regem'' (Some ''3rd decl intro'')]"

definition VERBS :: "Verb list" where
  "VERBS = [
     mkVerb ''amo'' ''I love'' ''amat'',
     mkVerb ''timeo'' ''I fear'' ''timet'',
     mkVerb ''laudo'' ''I praise'' ''laudat'',
     mkVerb ''culpo'' ''I blame'' ''culpat'',
     mkVerb ''ambulo'' ''I walk'' ''ambulat'',
     mkVerb ''curro'' ''I run'' ''currit'',
     mkVerb ''venio'' ''I come'' ''venit'',
     mkVerb ''discedo'' ''I depart'' ''discedit'',
     mkVerb ''redeo'' ''I return'' ''redit'',
     mkVerb ''porto'' ''I carry'' ''portat'',
     mkVerb ''teneo'' ''I hold'' ''tenet'',
     mkVerb ''capio'' ''I take'' ''capit'',
     mkVerb ''do'' ''I give'' ''dat'',
     mkVerb ''servo'' ''I save / keep'' ''servat'',
     mkVerb ''paro'' ''I prepare'' ''parat'',
     mkVerb ''video'' ''I see'' ''videt'',
     mkVerb ''audio'' ''I hear'' ''audit'',
     mkVerb ''voco'' ''I call'' ''vocat'',
     mkVerb ''specto'' ''I watch'' ''spectat'',
     mkVerb ''narro'' ''I tell'' ''narrat'',
     mkVerb ''habito'' ''I live (inhabit)'' ''habitat'',
     mkVerb ''defendo'' ''I defend'' ''defendit'']"

definition ADJECTIVES :: "Adjective list" where
  "ADJECTIVES = [
     mkAdj ''bonus'' ''bonus'' ''good''
       ''bonus'' ''bona'' ''bonum'' ''bonum'' ''bonam'' ''bonum'' None,
     mkAdj ''magnus'' ''magnus'' ''big / great''
       ''magnus'' ''magna'' ''magnum'' ''magnum'' ''magnam'' ''magnum'' None,
     mkAdj ''parvus'' ''parvus'' ''small''
       ''parvus'' ''parva'' ''parvum'' ''parvum'' ''parvam'' ''parvum'' None,
     mkAdj ''celer'' ''celer'' ''fast''
       ''celer'' ''celeris'' ''celer'' ''celerem'' ''celerem'' ''celer''
       (Some ''Technically 3rd decl adjective - used lightly as a challenge word.'')]"

text \<open>\<^verbatim>\<open>noun.forms?.[gramCase]\<close>\<close>

definition nounForm :: "Noun \<Rightarrow> GramCase \<Rightarrow> string option" where
  "nounForm noun gramCase =
     (case noun_forms noun of None \<Rightarrow> None | Some fs \<Rightarrow> map_of fs gramCase)"

text \<open>\<^verbatim>\<open>adj.forms?.[gramCase]?.[gender]\<close>\<close>

definition adjForm :: "Adjective \<Rightarrow> GramCase \<Rightarrow> Gender \<Rightarrow> string option" where
  "adjForm a gramCase gender =
     (case adj_forms a of
        None \<Rightarrow> None
      | Some fs \<Rightarrow> (case map_of fs gramCase of None \<Rightarrow> None | Some row \<Rightarrow> map_of row gender))"

text \<open>\<^verbatim>\<open>x || y\<close> for a string or \<^verbatim>\<open>undefined\<close> on the left: the empty string is falsy too.\<close>

definition js_or :: "string option \<Rightarrow> string \<Rightarrow> string" where
  "js_or x y = (case x of None \<Rightarrow> y | Some s \<Rightarrow> if s = [] then y else s)"

text \<open>
  Both places that resolve an adjective, in \<^verbatim>\<open>makeChallenge\<close> and in \<^verbatim>\<open>makeTiles\<close>,
  are the expression \<^verbatim>\<open>adjForm(adj, gramCase, gender) || adj.lemma\<close>.
\<close>

definition adjForm_or_lemma :: "Adjective \<Rightarrow> GramCase \<Rightarrow> Gender \<Rightarrow> string" where
  "adjForm_or_lemma a gramCase gender = js_or (adjForm a gramCase gender) (adj_lemma a)"

subsection \<open>Random source, pick and shuffle\<close>

text \<open>
  The source of randomness is the sequence of the values that the successive calls of
  \<^verbatim>\<open>Math.random()\<close> return; each call takes the head. The platform promises values in
  \<open>[0, 1)\<close>, which is \<open>valid_rng\<close>.
\<close>

type_synonym rng = "nat \<Rightarrow> real"

definition random :: "rng \<Rightarrow> real \<times> rng" where
  "random g = (g 0, \<lambda>i. g (Suc i))"

definition valid_rng :: "rng \<Rightarrow> bool" where
  "valid_rng g = (\<forall>i. 0 \<le> g i \<and> g i < 1)"

datatype error = TypeError

text \<open>
  \<^verbatim>\<open>arr[Math.floor(Math.random() * arr.length)]\<close>; reading outside the array gives
  \<^verbatim>\<open>undefined\<close>.
\<close>

definition pick :: "'a list \<Rightarrow> rng \<Rightarrow> 'a option \<times> rng" where
  "pick arr g =
     (let (r, g') = random g;
          i = \<lfloor>r * real (length arr)\<rfloor>
      in (if 0 \<le> i \<and> i < int (length arr) then Some (arr ! nat i) else None, g'))"

text \<open>
  The loop of \<^verbatim>\<open>shuffle\<close> runs \<open>i\<close> from \<open>length a - 1\<close> down to \<open>1\<close>; the destructuring
  assignment stores the old \<open>a[j]\<close> at \<open>i\<close> and then the old \<open>a[i]\<close> at \<open>j\<close>. With a
  random value in \<open>[0, 1)\<close> the index \<open>j\<close> is at most \<open>i\<close>.
\<close>

fun shuffle_loop :: "nat \<Rightarrow> 'a list \<Rightarrow> rng \<Rightarrow> 'a list \<times> rng" where
  "shuffle_loop 0 a g = (a, g)"
| "shuffle_loop (Suc k) a g =
     (let i = Suc k;
          (r, g') = random g;
          j = nat \<lfloor>r * real (i + 1)\<rfloor>
      in shuffle_loop k (a[i := a ! j, j := a ! i]) g')"

definition shuffle :: "'a list \<Rightarrow> rng \<Rightarrow> 'a list \<times> rng" where
  "shuffle arr g = shuffle_loop (length arr - 1) arr g"

subsection \<open>Strings\<close>

text \<open>\<^verbatim>\<open>Array.prototype.join\<close>: an \<^verbatim>\<open>undefined\<close> element contributes the empty string.\<close>

definition str_of :: "string option \<Rightarrow> string" where
  "str_of t = (case t of None \<Rightarrow> [] | Some s \<Rightarrow> s)"

fun js_join :: "string \<Rightarrow> string option list \<Rightarrow> string" where
  "js_join sep [] = []"
| "js_join sep [x] = str_of x"
| "js_join sep (x # y # ys) = str_of x @ sep @ js_join sep (y # ys)"

text \<open>A value inside a template literal: \<^verbatim>\<open>undefined\<close> prints as its name, a number in decimal.\<close>

definition tmpl :: "string option \<Rightarrow> string" where
  "tmpl t = (case t of None \<Rightarrow> ''undefined'' | Some s \<Rightarrow> s)"

definition digit_char :: "nat \<Rightarrow> char" where
  "digit_char d = ''0123456789'' ! (d mod 10)"

function string_of_nat :: "nat \<Rightarrow> string" where
  "string_of_nat k =
     (if k < 10 then [digit_char k] else string_of_nat (k div 10) @ [digit_char (k mod 10)])"
  by pat_completeness auto
termination
  by (relation "measure (\<lambda>k. k)") auto

declare string_of_nat.simps [simp del]

subsection \<open>Sentence construction: challenges and tiles\<close>

datatype Target = subject_target | object_target

text \<open>
  Of the challenge the fields \<^verbatim>\<open>english\<close> and \<^verbatim>\<open>grammarTip\<close> are left out (texts
  shown to the player). Reading a property of \<^verbatim>\<open>undefined\<close> throws, which is
  \<open>Inl TypeError\<close>: the second filter reads \<^verbatim>\<open>subject.id\<close>, \<^verbatim>\<open>nounForm\<close> reads
  \<^verbatim>\<open>noun.forms\<close>, and the sentence reads \<^verbatim>\<open>verb.pres3s\<close> and, with an adjective,
  \<^verbatim>\<open>adj!.meaning\<close>.
\<close>

record Challenge =
  len :: "nat option"
  subject :: Noun
  object :: Noun
  verb :: Verb
  adj :: "Adjective option"
  adjTargets :: "Target option"
  latin :: "string option list"
  logLine :: string

definition makeChallenge :: "nat option \<Rightarrow> rng \<Rightarrow> error + (Challenge \<times> rng)" where
  "makeChallenge n g =
     (case pick (filter (\<lambda>x. noun_id x \<noteq> ''verbum'') NOUNS) g of
        (None, _) \<Rightarrow> Inl TypeError
      | (Some subj, g1) \<Rightarrow>
     (case pick (filter (\<lambda>x. noun_id x \<noteq> noun_id subj) NOUNS) g1 of
        (None, _) \<Rightarrow> Inl TypeError
      | (Some obj, g2) \<Rightarrow>
     (case pick VERBS g2 of
        (None, _) \<Rightarrow> Inl TypeError
      | (Some vb, g3) \<Rightarrow>
     (let useAdj = at_least n 4;
          (adjective, g4) = (if useAdj then pick ADJECTIVES g3 else (None, g3));
          (targets, g5) =
            (if useAdj
             then (let (r, g') = random g4
                   in (Some (if r < 1 / 2 then subject_target else object_target), g'))
             else (None, g4));
          subjWord = nounForm subj nomSg;
          objWord = nounForm obj accSg;
          verbWord = Some (pres3s vb);
          adjWord =
            (case adjective of
               None \<Rightarrow> None
             | Some a \<Rightarrow>
                 (let targetNoun = (if targets = Some subject_target then subj else obj);
                      aCase = (if targets = Some subject_target then nomSg else accSg)
                  in Some (adjForm_or_lemma a aCase (noun_gender targetNoun))));
          latin' =
            (if useAdj
             then (if targets = Some subject_target
                   then [adjWord, subjWord, verbWord, objWord]
                   else [subjWord, verbWord, adjWord, objWord])
             else [subjWord, verbWord, objWord]);
          (line, g6) =
            pick [''Sighting logged!'', ''Field note added!'', ''Checklist updated!'',
                  ''Rare behavior observed!''] g5
      in if useAdj \<and> adjective = None then Inl TypeError
         else Inr (\<lparr>len = n, subject = subj, object = obj, verb = vb, adj = adjective,
                    adjTargets = targets, latin = latin', logLine = str_of line\<rparr>, g6)))))"

record Tile =
  tile_id :: string
  tile_text :: "string option"
  tile_correct :: bool

definition correctTiles :: "Challenge \<Rightarrow> Tile list" where
  "correctTiles ch =
     map (\<lambda>(i, t). \<lparr>tile_id = ''c-'' @ string_of_nat i @ ''-'' @ tmpl t, tile_text = t,
                     tile_correct = True\<rparr>)
         (enumerate 0 (latin ch))"

definition adjDecoy :: "Challenge \<Rightarrow> Tile list" where
  "adjDecoy ch =
     (case adj ch of
        None \<Rightarrow> []
      | Some a \<Rightarrow>
          (if at_least (len ch) 4
           then (let targetNoun = (if adjTargets ch = Some subject_target then subject ch
                                   else object ch);
                     wrongCase = (if adjTargets ch = Some subject_target then accSg else nomSg);
                     wrongAdj = adjForm_or_lemma a wrongCase (noun_gender targetNoun)
                 in [\<lparr>tile_id = ''d-adj'', tile_text = Some wrongAdj, tile_correct = False\<rparr>])
           else []))"

definition decoys :: "Challenge \<Rightarrow> Verb \<Rightarrow> Tile list" where
  "decoys ch otherVerb =
     [\<lparr>tile_id = ''d-subj-wrong'', tile_text = nounForm (subject ch) accSg,
       tile_correct = False\<rparr>,
      \<lparr>tile_id = ''d-obj-wrong'', tile_text = nounForm (object ch) nomSg,
       tile_correct = False\<rparr>,
      \<lparr>tile_id = ''d-verb'', tile_text = Some (pres3s otherVerb), tile_correct = False\<rparr>]
     @ adjDecoy ch"

definition makeTiles :: "Challenge \<Rightarrow> rng \<Rightarrow> error + (Tile list \<times> rng)" where
  "makeTiles ch g =
     (case pick (filter (\<lambda>v. verb_id v \<noteq> verb_id (verb ch)) VERBS) g of
        (None, _) \<Rightarrow> Inl TypeError
      | (Some otherVerb, g1) \<Rightarrow>
          (let (all, g2) = shuffle (correctTiles ch @ decoys ch otherVerb) g1
           in Inr (shuffle (take 10 all) g2)))"

subsection \<open>Round state: what both modes share\<close>

datatype Phase = playing | paused

datatype MsgKind = msg_good | msg_try

text \<open>The argument of the callback \<^verbatim>\<open>onRoundEnd\<close>.\<close>

record RoundEnd =
  re_mode :: string
  re_score :: jsnum
  re_comboMax :: int

subsection \<open>Sentence construction mode (SightingLogMode)\<close>

text \<open>
  The component's state variables; of \<^verbatim>\<open>message\<close> only the kind is kept. The prop
  \<^verbatim>\<open>difficultyKey\<close> is a parameter of the handlers; \<^verbatim>\<open>soundOn\<close> only triggers speech.
\<close>

record Sighting =
  s_phase :: Phase
  s_secondsLeft :: jsnum
  challenge :: Challenge
  tiles :: "Tile list"
  answer :: "Tile list"
  s_combo :: int
  s_score :: jsnum
  s_message :: "MsgKind option"
  s_endNote :: "string option"

text \<open>
  The two callbacks that \<^verbatim>\<open>tapTile\<close> hands to \<^verbatim>\<open>setTimeout\<close>. The first carries the
  values \<^verbatim>\<open>newScore\<close> and \<^verbatim>\<open>nextCombo\<close> computed by the handler.
\<close>

datatype SightingTimeout = CompleteSighting jsnum int | PopAnswer

definition tapTile :: "string \<Rightarrow> Sighting \<Rightarrow> Tile \<Rightarrow> Sighting \<times> SightingTimeout list" where
  "tapTile difficultyKey st tile =
     (if s_phase st \<noteq> playing then (st, [])
      else if length (answer st) \<ge> length (latin (challenge st)) then (st, [])
      else if list_ex (\<lambda>a. tile_id a = tile_id tile) (answer st) then (st, [])
      else
        (let next = answer st @ [tile];
             st1 = st\<lparr>answer := next\<rparr>
         in if length next = length (latin (challenge st))
            then
              (let built = map tile_text next;
                   correct = (js_join '' '' built = js_join '' '' (latin (challenge st)))
               in if correct
                  then
                    (let nextCombo = s_combo st + 1;
                         gained = xpFor True (map_option of_int (s_secondsLeft st))
                                    (of_int nextCombo) difficultyKey;
                         newScore = js_add (s_score st) gained
                     in (st1\<lparr>s_combo := nextCombo, s_score := newScore,
                             s_message := Some msg_good\<rparr>,
                         [CompleteSighting newScore nextCombo]))
                  else (st1\<lparr>s_combo := 0, s_message := Some msg_try\<rparr>, [PopAnswer]))
            else (st1, [])))"

fun sighting_fire :: "Sighting \<Rightarrow> SightingTimeout \<Rightarrow> Sighting \<times> RoundEnd option" where
  "sighting_fire st (CompleteSighting newScore nextCombo) =
     (st\<lparr>s_phase := paused, s_endNote := Some ''Correct! Round complete.''\<rparr>,
      Some \<lparr>re_mode = ''Sighting Log'', re_score = newScore, re_comboMax = nextCombo\<rparr>)"
| "sighting_fire st PopAnswer = (st\<lparr>answer := popLast (answer st)\<rparr>, None)"

text \<open>\<^verbatim>\<open>finishRound\<close> of this mode reads \<^verbatim>\<open>score\<close> and \<^verbatim>\<open>combo\<close> of the state it runs in.\<close>

definition sighting_finishRound :: "Sighting \<Rightarrow> string \<Rightarrow> Sighting \<times> RoundEnd" where
  "sighting_finishRound st reason =
     (st\<lparr>s_phase := paused, s_endNote := Some reason\<rparr>,
      \<lparr>re_mode = ''Sighting Log'', re_score = s_score st, re_comboMax = s_combo st\<rparr>)"

text \<open>The interval callback, and the effect that runs after \<^verbatim>\<open>secondsLeft\<close> or the phase changed.\<close>

definition sighting_tick :: "Sighting \<Rightarrow> Sighting" where
  "sighting_tick st = st\<lparr>s_secondsLeft := js_pred (s_secondsLeft st)\<rparr>"

definition sighting_timeEffect :: "Sighting \<Rightarrow> Sighting \<times> RoundEnd option" where
  "sighting_timeEffect st =
     (if s_phase st \<noteq> playing then (st, None)
      else if js_le (s_secondsLeft st) 0
           then (let (st', r) = sighting_finishRound st ''Time!'' in (st', Some r))
           else (st, None))"

text \<open>
  The state with which a round starts: the initial values of the state variables, which
  \<^verbatim>\<open>nextRound\<close> and the restart button set again. \<^verbatim>\<open>conf.time\<close> and
  \<^verbatim>\<open>conf.sentenceLen\<close> are \<^verbatim>\<open>undefined\<close> when the difficulty key finds an inherited
  member.
\<close>

definition sighting_start :: "string \<Rightarrow> rng \<Rightarrow> error + (Sighting \<times> rng)" where
  "sighting_start difficultyKey g =
     (let conf = conf_of difficultyKey
      in case makeChallenge (map_option sentenceLen conf) g of
           Inl e \<Rightarrow> Inl e
         | Inr (ch, g1) \<Rightarrow>
             (case makeTiles ch g1 of
                Inl e \<Rightarrow> Inl e
              | Inr (ts, g2) \<Rightarrow>
                  Inr (\<lparr>s_phase = playing, s_secondsLeft = map_option time conf,
                        challenge = ch, tiles = ts, answer = [], s_combo = 0, s_score = Some 0,
                        s_message = None, s_endNote = None\<rparr>, g2)))"

text \<open>Tapping several tiles one after the other, no timeout firing in between.\<close>

definition tapTiles :: "string \<Rightarrow> Sighting \<Rightarrow> Tile list \<Rightarrow> Sighting" where
  "tapTiles difficultyKey st ts = foldl (\<lambda>s t. fst (tapTile difficultyKey s t)) st ts"

subsection \<open>Vocabulary matching mode (MatchMode)\<close>

text \<open>Of a pool item the field \<^verbatim>\<open>hint\<close>, a text for the player, is left out.\<close>

record MatchPoolItem =
  item_id :: string
  item_latin :: "string option"
  item_meaning :: string
  item_tag :: string
  item_kind :: string

record Round =
  items :: "MatchPoolItem list"
  left :: "string list"
  right :: "string list"

record Match =
  m_phase :: Phase
  m_secondsLeft :: jsnum
  round_m :: Round
  selectedLatin :: "string option"
  doneIds :: "string list"
  m_combo :: int
  m_score :: jsnum
  m_message :: "MsgKind option"
  m_endNote :: "string option"

text \<open>\<^verbatim>\<open>round.items.find((x) => x.id === id)\<close>\<close>

definition itemById :: "Match \<Rightarrow> string \<Rightarrow> MatchPoolItem option" where
  "itemById st i = find (\<lambda>x. item_id x = i) (items (round_m st))"

text \<open>
  \<^verbatim>\<open>finishRound\<close> is a function of the component body, so every render makes a new one
  whose free variables \<^verbatim>\<open>score\<close> and \<^verbatim>\<open>combo\<close> are the values of that render. A
  callback is the reason together with these two values.
\<close>

datatype MatchTimeout = FinishRound string jsnum int

definition finishRound_of :: "Match \<Rightarrow> string \<Rightarrow> MatchTimeout" where
  "finishRound_of st reason = FinishRound reason (m_score st) (m_combo st)"

fun match_fire :: "Match \<Rightarrow> MatchTimeout \<Rightarrow> Match \<times> RoundEnd" where
  "match_fire st (FinishRound reason score combo) =
     (st\<lparr>m_phase := paused, m_endNote := Some reason\<rparr>,
      \<lparr>re_mode = ''Match'', re_score = score, re_comboMax = combo\<rparr>)"

text \<open>With sound on the handler reads \<^verbatim>\<open>it.latin\<close> of the item found.\<close>

definition chooseLatin :: "bool \<Rightarrow> Match \<Rightarrow> string \<Rightarrow> error + Match" where
  "chooseLatin soundOn st i =
     (if m_phase st \<noteq> playing then Inr st
      else if i \<in> set (doneIds st) then Inr st
      else if soundOn \<and> itemById st i = None then Inl TypeError
      else Inr (st\<lparr>selectedLatin := Some i\<rparr>))"

text \<open>
  The handler called in the render of state \<open>st\<close>. Both branches read a property of the
  item found for the message, which throws when there is no such item; the buttons pass
  identifiers of \<^verbatim>\<open>round.items\<close> only, and what becomes of the state updates queued
  before a throw is not modelled. The timeout of the last pair calls the
  \<^verbatim>\<open>finishRound\<close> of this render.
\<close>

definition chooseMeaning :: "string \<Rightarrow> Match \<Rightarrow> string \<Rightarrow> error + (Match \<times> MatchTimeout list)" where
  "chooseMeaning difficultyKey st i =
     (if m_phase st \<noteq> playing then Inr (st, [])
      else case selectedLatin st of
        None \<Rightarrow> Inr (st, [])
      | Some sel \<Rightarrow>
          if sel = [] then Inr (st, [])
          else if i \<in> set (doneIds st) then Inr (st, [])
          else if sel = i
          then
            (let nextCombo = m_combo st + 1;
                 gained = xpFor True (map_option of_int (m_secondsLeft st)) (of_int nextCombo)
                            difficultyKey
             in case itemById st i of
                  None \<Rightarrow> Inl TypeError
                | Some it \<Rightarrow>
                    Inr (st\<lparr>m_combo := nextCombo, m_score := js_add (m_score st) gained,
                            doneIds := doneIds st @ [i], selectedLatin := None,
                            m_message := Some msg_good\<rparr>,
                         if length (doneIds st) + 1 \<ge> length (items (round_m st))
                         then [finishRound_of st ''Round complete!'']
                         else []))
          else
            (case itemById st sel of
               None \<Rightarrow> Inl TypeError
             | Some it \<Rightarrow>
                 Inr (st\<lparr>m_combo := 0, selectedLatin := None, m_message := Some msg_try\<rparr>, [])))"

definition match_tick :: "Match \<Rightarrow> Match" where
  "match_tick st = st\<lparr>m_secondsLeft := js_pred (m_secondsLeft st)\<rparr>"

definition match_timeEffect :: "Match \<Rightarrow> Match \<times> RoundEnd option" where
  "match_timeEffect st =
     (if m_phase st \<noteq> playing then (st, None)
      else if js_le (m_secondsLeft st) 0
           then (let (st', r) = match_fire st (finishRound_of st ''Time!'') in (st', Some r))
           else (st, None))"

subsection \<open>The application: folding a round into the lifetime record\<close>

text \<open>
  \<^verbatim>\<open>onRoundEnd\<close> calls \<^verbatim>\<open>awardXP(score, comboMax)\<close>. The lifetime record is modelled
  with whole numbers, as its type has it; a score that is \<^verbatim>\<open>NaN\<close> would put
  \<^verbatim>\<open>NaN\<close> into the record, and for it the result is \<open>None\<close>.
\<close>

definition onRoundEnd :: "BirdCard list \<Rightarrow> PersistedState \<Rightarrow> RoundEnd
    \<Rightarrow> (PersistedState \<times> BirdCard option) option" where
  "onRoundEnd cards s r =
     map_option (\<lambda>score. awardXP cards s score (re_comboMax r)) (re_score r)"

subsection \<open>Stored progress\<close>

text \<open>
  What \<^verbatim>\<open>JSON.parse\<close> returns: a JSON value. An object is a map from its keys to values, a
  missing key being \<^verbatim>\<open>undefined\<close>; the order of the keys is not modelled. A number
  literal beyond the range of the doubles, such as \<^verbatim>\<open>1e400\<close>, parses to an infinity.
\<close>

datatype json =
    JNull
  | JBool bool
  | JNum real
  | JPosInf
  | JNegInf
  | JStr string
  | JArr "json list"
  | JObj "string \<Rightarrow> json option"

text \<open>The truth value of a JSON value, as \<^verbatim>\<open>||\<close> and \<^verbatim>\<open>!\<close> take it.\<close>

definition truthy :: "json \<Rightarrow> bool" where
  "truthy v =
     (case v of
        JNull \<Rightarrow> False
      | JBool b \<Rightarrow> b
      | JNum x \<Rightarrow> x \<noteq> 0
      | JPosInf \<Rightarrow> True
      | JNegInf \<Rightarrow> True
      | JStr s \<Rightarrow> s \<noteq> []
      | JArr _ \<Rightarrow> True
      | JObj _ \<Rightarrow> True)"

text \<open>
  The own enumerable properties of a value, which the object spread \<^verbatim>\<open>{ ...v }\<close> copies:
  the entries of an object, the elements of an array and the characters of a string under
  their indices, nothing for a number, a boolean or \<^verbatim>\<open>null\<close>. Reading one of the
  properties \<^verbatim>\<open>player\<close>, \<^verbatim>\<open>best\<close>, \<^verbatim>\<open>collection\<close>, \<^verbatim>\<open>settings\<close> of a value other
  than \<^verbatim>\<open>null\<close> is a lookup among these.
\<close>

definition own_props :: "json \<Rightarrow> string \<Rightarrow> json option" where
  "own_props v =
     (case v of
        JObj m \<Rightarrow> m
      | JArr xs \<Rightarrow> map_of (zip (map string_of_nat [0..<length xs]) xs)
      | JStr s \<Rightarrow> map_of (zip (map string_of_nat [0..<length s]) (map (\<lambda>c. JStr [c]) s))
      | _ \<Rightarrow> Map.empty)"

text \<open>\<^verbatim>\<open>x || {}\<close>, for \<open>x\<close> a value or \<^verbatim>\<open>undefined\<close>.\<close>

definition or_empty :: "json option \<Rightarrow> json" where
  "or_empty x =
     (case x of None \<Rightarrow> JObj Map.empty | Some v \<Rightarrow> if truthy v then v else JObj Map.empty)"

text \<open>The record \<^verbatim>\<open>base\<close> of \<^verbatim>\<open>loadState\<close> and its four sections.\<close>

definition base_player :: json where
  "base_player = JObj [''name'' \<mapsto> JStr ''Challenger'', ''difficulty'' \<mapsto> JStr ''normal'']"

definition base_best :: json where
  "base_best = JObj [''highScore'' \<mapsto> JNum 0, ''bestStreak'' \<mapsto> JNum 0, ''totalXP'' \<mapsto> JNum 0]"

definition base_collection :: json where
  "base_collection = JObj [''unlocked'' \<mapsto> JArr []]"

definition base_settings :: json where
  "base_settings = JObj [''sound'' \<mapsto> JBool True]"

definition base :: json where
  "base = JObj [''player'' \<mapsto> base_player, ''best'' \<mapsto> base_best,
                ''collection'' \<mapsto> base_collection, ''settings'' \<mapsto> base_settings]"

text \<open>
  The stored item as \<^verbatim>\<open>loadState\<close> sees it. \<^verbatim>\<open>getItem\<close> returns \<^verbatim>\<open>null\<close> (also
  taken when there is no window), the empty text, a text that \<^verbatim>\<open>JSON.parse\<close> rejects,
  or a text that \<^verbatim>\<open>JSON.parse\<close> turns into a value. A rejected text makes
  \<^verbatim>\<open>safeJsonParse\<close> return its fallback, which is \<^verbatim>\<open>base\<close>. After the spread of
  \<^verbatim>\<open>parsed\<close>, which accepts \<^verbatim>\<open>null\<close>, the code reads \<^verbatim>\<open>parsed.player\<close>, and reading a
  property of \<^verbatim>\<open>null\<close> throws.
\<close>

datatype stored = NoItem | EmptyText | BadText | JsonText json

definition loadState :: "stored \<Rightarrow> error + json" where
  "loadState raw =
     (case raw of
        NoItem \<Rightarrow> Inr base
      | EmptyText \<Rightarrow> Inr base
      | _ \<Rightarrow>
        (let parsed = (case raw of JsonText v \<Rightarrow> v | _ \<Rightarrow> base)
         in case parsed of
              JNull \<Rightarrow> Inl TypeError
            | _ \<Rightarrow>
                Inr (JObj ((own_props base ++ own_props parsed)
                       (''player'' \<mapsto>
                          JObj (own_props base_player
                                ++ own_props (or_empty (own_props parsed ''player''))),
                        ''best'' \<mapsto>
                          JObj (own_props base_best
                                ++ own_props (or_empty (own_props parsed ''best''))),
                        ''collection'' \<mapsto>
                          JObj (own_props base_collection
                                ++ own_props (or_empty (own_props parsed ''collection''))),
                        ''settings'' \<mapsto>
                          JObj (own_props base_settings
                                ++ own_props (or_empty (own_props parsed ''settings''))))))))"

text \<open>
  \<^verbatim>\<open>saveState\<close> stores \<^verbatim>\<open>JSON.stringify(state)\<close>. What \<^verbatim>\<open>JSON.parse\<close> makes of
  that text is the state with every infinity replaced by \<^verbatim>\<open>null\<close>, which is how
  \<^verbatim>\<open>JSON.stringify\<close> writes a number that is not finite.
\<close>

primrec stringified :: "json \<Rightarrow> json" where
  "stringified JNull = JNull"
| "stringified (JBool b) = JBool b"
| "stringified (JNum x) = JNum x"
| "stringified JPosInf = JNull"
| "stringified JNegInf = JNull"
| "stringified (JStr s) = JStr s"
| "stringified (JArr xs) = JArr (map stringified xs)"
| "stringified (JObj m) = JObj (\<lambda>k. map_option stringified (m k))"

definition saveState :: "json \<Rightarrow> stored" where
  "saveState state = JsonText (stringified state)"

text \<open>The JSON value of a well-formed record.\<close>

definition encode :: "PersistedState \<Rightarrow> json" where
  "encode s =
     JObj [''player'' \<mapsto> JObj [''name'' \<mapsto> JStr (name (player s)),
                                   ''difficulty'' \<mapsto> JStr (difficulty (player s))],
           ''best'' \<mapsto> JObj [''highScore'' \<mapsto> JNum (of_int (highScore (best s))),
                                 ''bestStreak'' \<mapsto> JNum (of_int (bestStreak (best s))),
                                 ''totalXP'' \<mapsto> JNum (of_int (totalXP (best s)))],
           ''collection'' \<mapsto> JObj [''unlocked'' \<mapsto> JArr (map JStr (unlocked (collection s)))],
           ''settings'' \<mapsto> JObj [''sound'' \<mapsto> JBool (sound (settings s))]]"

subsection \<open>Example inputs\<close>

text \<open>A catalog of four cards, and the baseline record with which \<^verbatim>\<open>loadState\<close> starts.\<close>

definition example_cards :: "BirdCard list" where
  "example_cards =
     [\<lparr>bird_id = ''b1'', common = ''Robin'', sci = ''Erithacus rubecula'', badge = ''A'',
       fun_fact = ''rubecula: little red one''\<rparr>,
      \<lparr>bird_id = ''b2'', common = ''Barn owl'', sci = ''Tyto alba'', badge = ''B'',
       fun_fact = ''alba: white''\<rparr>,
      \<lparr>bird_id = ''b3'', common = ''Raven'', sci = ''Corvus corax'', badge = ''C'',
       fun_fact = ''corvus: raven''\<rparr>,
      \<lparr>bird_id = ''b4'', common = ''Mallard'', sci = ''Anas platyrhynchos'', badge = ''D'',
       fun_fact = ''anas: duck''\<rparr>]"

definition base_state :: PersistedState where
  "base_state =
     \<lparr>player = \<lparr>name = ''Challenger'', difficulty = ''normal''\<rparr>,
      best = \<lparr>highScore = 0, bestStreak = 0, totalXP = 0\<rparr>,
      collection = \<lparr>unlocked = []\<rparr>,
      settings = \<lparr>sound = True\<rparr>\<rparr>"

text \<open>
  A matching round on easy (four items of the pool, 28 seconds) at its start, and the
  player resolving pairs one after the other: the Latin side, then the same meaning.
\<close>

definition example_match :: Match where
  "example_match =
     \<lparr>m_phase = playing, m_secondsLeft = Some 28,
      round_m = \<lparr>items =
                 [\<lparr>item_id = ''puella-nom'', item_latin = Some ''puella'',
                   item_meaning = ''girl (subject)'', item_tag = ''NOM'', item_kind = ''noun''\<rparr>,
                  \<lparr>item_id = ''amo'', item_latin = Some ''amat'',
                   item_meaning = ''he/she/it love'', item_tag = ''V'', item_kind = ''verb''\<rparr>,
                  \<lparr>item_id = ''avis-acc'', item_latin = Some ''avem'',
                   item_meaning = ''bird (object)'', item_tag = ''ACC'', item_kind = ''noun''\<rparr>,
                  \<lparr>item_id = ''bonus'', item_latin = Some ''bonus'',
                   item_meaning = ''good'', item_tag = ''ADJ'', item_kind = ''adj''\<rparr>],
               left = [''amo'', ''bonus'', ''puella-nom'', ''avis-acc''],
               right = [''avis-acc'', ''puella-nom'', ''bonus'', ''amo'']\<rparr>,
      selectedLatin = None, doneIds = [], m_combo = 0, m_score = Some 0, m_message = None,
      m_endNote = None\<rparr>"

fun resolve_pairs :: "string \<Rightarrow> Match \<Rightarrow> string list \<Rightarrow> error + (Match \<times> MatchTimeout list)" where
  "resolve_pairs difficultyKey st [] = Inr (st, [])"
| "resolve_pairs difficultyKey st (i # is) =
     (case chooseLatin False st i of
        Inl e \<Rightarrow> Inl e
      | Inr st1 \<Rightarrow>
          (case chooseMeaning difficultyKey st1 i of
             Inl e \<Rightarrow> Inl e
           | Inr (st2, ts) \<Rightarrow> if is = [] then Inr (st2, ts) else resolve_pairs difficultyKey st2 is))"

text \<open>
  A hand-made sentence round: the challenge of the specification's example, with the six
  tiles in some order.
\<close>

definition example_challenge :: Challenge where
  "example_challenge =
     \<lparr>len = Some 3, subject = NOUNS ! 0, object = NOUNS ! 7, verb = VERBS ! 9, adj = None,
      adjTargets = None, latin = [Some ''puella'', Some ''portat'', Some ''portam''],
      logLine = ''Sighting logged!''\<rparr>"

definition example_sighting :: Sighting where
  "example_sighting =
     \<lparr>s_phase = playing, s_secondsLeft = Some 22, challenge = example_challenge,
      tiles = [\<lparr>tile_id = ''d-verb'', tile_text = Some ''amat'', tile_correct = False\<rparr>,
               \<lparr>tile_id = ''c-2-portam'', tile_text = Some ''portam'', tile_correct = True\<rparr>,
               \<lparr>tile_id = ''c-0-puella'', tile_text = Some ''puella'', tile_correct = True\<rparr>,
               \<lparr>tile_id = ''d-obj-wrong'', tile_text = Some ''porta'', tile_correct = False\<rparr>,
               \<lparr>tile_id = ''c-1-portat'', tile_text = Some ''portat'', tile_correct = True\<rparr>,
               \<lparr>tile_id = ''d-subj-wrong'', tile_text = Some ''puellam'',
                tile_correct = False\<rparr>],
      answer = [], s_combo = 0, s_score = Some 0, s_message = None, s_endNote = None\<rparr>"



text \<open>
  The random source whose every value is 0, and the round of normal difficulty that it
  yields.
\<close>

definition zero_rng :: rng where
  "zero_rng = (\<lambda>_. 0)"

definition zero_round :: Sighting where
  "zero_round =
     \<lparr>s_phase = playing, s_secondsLeft = Some 22,
      challenge = \<lparr>len = Some 3, subject = NOUNS ! 0, object = NOUNS ! 1, verb = VERBS ! 0,
                   adj = None, adjTargets = None,
                   latin = [Some ''puella'', Some ''amat'', Some ''feminam''],
                   logLine = ''Sighting logged!''\<rparr>,
      tiles = [\<lparr>tile_id = ''c-2-feminam'', tile_text = Some ''feminam'', tile_correct = True\<rparr>,
               \<lparr>tile_id = ''d-subj-wrong'', tile_text = Some ''puellam'',
                tile_correct = False\<rparr>,
               \<lparr>tile_id = ''d-obj-wrong'', tile_text = Some ''femina'', tile_correct = False\<rparr>,
               \<lparr>tile_id = ''d-verb'', tile_text = Some ''timet'', tile_correct = False\<rparr>,
               \<lparr>tile_id = ''c-0-puella'', tile_text = Some ''puella'', tile_correct = True\<rparr>,
               \<lparr>tile_id = ''c-1-amat'', tile_text = Some ''amat'', tile_correct = True\<rparr>],
      answer = [], s_combo = 0, s_score = Some 0, s_message = None, s_endNote = None\<rparr>"

subsection \<open>Auxiliary notions for the proofs\<close>

text \<open>
  The challenge that \<^verbatim>\<open>makeChallenge\<close> returns once the subject, the object, the verb
  and, from length four on, the adjective and its target are drawn. Below four tiles the
  adjective and the target given here are not used.
\<close>

definition challenge_of :: "nat option \<Rightarrow> Noun \<Rightarrow> Noun \<Rightarrow> Verb \<Rightarrow> Adjective \<Rightarrow> Target \<Rightarrow> string \<Rightarrow> Challenge" where
  "challenge_of n subj obj vb a t line =
     (if at_least n 4
      then \<lparr>len = n, subject = subj, object = obj, verb = vb, adj = Some a, adjTargets = Some t,
            latin = (if t = subject_target
                     then [Some (adjForm_or_lemma a nomSg (noun_gender subj)), nounForm subj nomSg,
                           Some (pres3s vb), nounForm obj accSg]
                     else [nounForm subj nomSg, Some (pres3s vb),
                           Some (adjForm_or_lemma a accSg (noun_gender obj)), nounForm obj accSg]),
            logLine = line\<rparr>
      else \<lparr>len = n, subject = subj, object = obj, verb = vb, adj = None, adjTargets = None,
            latin = [nounForm subj nomSg, Some (pres3s vb), nounForm obj accSg],
            logLine = line\<rparr>)"

text \<open>A token that is a string without a space.\<close>

definition is_word :: "string option \<Rightarrow> bool" where
  "is_word t = (case t of None \<Rightarrow> False | Some s \<Rightarrow> CHR '' '' \<notin> set s)"

text \<open>
  The four sections, the field \<open>b\<close> of the section \<open>a\<close> of a value, and the object that
  \<^verbatim>\<open>loadState\<close> builds from a parsed value.
\<close>

definition sections :: "string set" where
  "sections = {''player'', ''best'', ''collection'', ''settings''}"

definition path2 :: "json \<Rightarrow> string \<Rightarrow> string \<Rightarrow> json option" where
  "path2 v a b = (case own_props v a of None \<Rightarrow> None | Some s \<Rightarrow> own_props s b)"

definition merged :: "json \<Rightarrow> string \<Rightarrow> json option" where
  "merged v =
     (own_props base ++ own_props v)
       (''player'' \<mapsto> JObj (own_props base_player ++ own_props (or_empty (own_props v ''player''))),
        ''best'' \<mapsto> JObj (own_props base_best ++ own_props (or_empty (own_props v ''best''))),
        ''collection'' \<mapsto>
           JObj (own_props base_collection ++ own_props (or_empty (own_props v ''collection''))),
        ''settings'' \<mapsto>
           JObj (own_props base_settings ++ own_props (or_empty (own_props v ''settings''))))"

section \<open>Properties\<close>

subsection \<open>Reward unlocks\<close>

lemma filter_first_index:
  "filter P xs = b # rest \<Longrightarrow>
     \<exists>i<length xs. b = xs ! i \<and> P (xs ! i) \<and> (\<forall>j<i. \<not> P (xs ! j))"
proof (induction xs)
  case Nil
  then show ?case by simp
next
  case (Cons x xs)
  show ?case
  proof (cases "P x")
    case True
    with Cons.prems have "b = x" by simp
    with True show ?thesis by (intro exI [of _ 0]) simp
  next
    case False
    with Cons.prems have "filter P xs = b # rest" by simp
    from Cons.IH [OF this] obtain i where
      i: "i < length xs" "b = xs ! i" "P (xs ! i)" "\<forall>j<i. \<not> P (xs ! j)" by blast
    have "\<forall>j<Suc i. \<not> P ((x # xs) ! j)"
      using False i(4) by (auto simp: less_Suc_eq_0_disj)
    with i show ?thesis by (intro exI [of _ "Suc i"]) simp
  qed
qed

lemma short_list_misses_a_card:
  assumes "distinct (map bird_id cards)" and "length U < length cards"
  shows "filter (\<lambda>b. bird_id b \<notin> set U) cards \<noteq> []"
proof
  assume "filter (\<lambda>b. bird_id b \<notin> set U) cards = []"
  then have "set (map bird_id cards) \<subseteq> set U"
    by (auto simp: filter_empty_conv)
  then have "card (set (map bird_id cards)) \<le> card (set U)"
    by (intro card_mono) simp_all
  also have "card (set U) \<le> length U" by (rule card_length)
  finally have "card (set (map bird_id cards)) \<le> length U" .
  moreover have "card (set (map bird_id cards)) = length cards"
    using distinct_card [OF assms(1)] by simp
  ultimately show False
    using assms(2) by simp
qed

lemma target_reached:
  "(clamp (of_int \<lfloor>real_of_int X / 250\<rfloor>) 0 (real n) \<le> real m)
     = (min (X div 250) (int n) \<le> int m)"
proof -
  have fl: "\<lfloor>real_of_int X / 250\<rfloor> = X div 250"
    using floor_divide_of_int_eq [of X 250, where ?'a = real] by simp
  have "clamp (of_int \<lfloor>real_of_int X / 250\<rfloor>) 0 (real n)
          = real_of_int (max 0 (min (int n) (X div 250)))"
    by (simp add: fl clamp_def max_def min_def)
  moreover have "real m = real_of_int (int m)" by simp
  ultimately have "(clamp (of_int \<lfloor>real_of_int X / 250\<rfloor>) 0 (real n) \<le> real m)
          = (max 0 (min (int n) (X div 250)) \<le> int m)"
    by (simp only: of_int_le_iff)
  also have "\<dots> = (min (X div 250) (int n) \<le> int m)" by auto
  finally show ?thesis .
qed

text \<open>
  C3. One progression update at lifetime experience \<open>X\<close> (the previous total plus the
  round's score) with the list \<open>U\<close> of unlocked identifiers unlocks at most one reward:
  none when \<open>U\<close> is at least as long as \<open>min (X div 250) (length cards)\<close>, and otherwise
  exactly the first catalog entry whose identifier is not in \<open>U\<close>, whose identifier is
  appended to \<open>U\<close>, however many thresholds of 250 the total has crossed. The catalog's
  identifiers are taken to be pairwise distinct.
\<close>

theorem maybeUnlockBird_at_most_one:
  assumes "distinct (map bird_id cards)"
    and "X = or0 (totalXP (best s)) + deltaXP"
    and "U = unlocked (collection s)"
  shows "(int (length U) \<ge> min (X div 250) (int (length cards)) \<longrightarrow>
            maybeUnlockBird cards X U = None
            \<and> unlocked (collection (fst (awardXP cards s deltaXP comboMax))) = U)
       \<and> (int (length U) < min (X div 250) (int (length cards)) \<longrightarrow>
            (\<exists>i<length cards.
               maybeUnlockBird cards X U = Some (cards ! i)
               \<and> bird_id (cards ! i) \<notin> set U
               \<and> (\<forall>j<i. bird_id (cards ! j) \<in> set U)
               \<and> unlocked (collection (fst (awardXP cards s deltaXP comboMax)))
                   = U @ [bird_id (cards ! i)]))"
proof (intro conjI impI)
  assume ge: "int (length U) \<ge> min (X div 250) (int (length cards))"
  then have none: "maybeUnlockBird cards X U = None"
    by (simp add: maybeUnlockBird_def Let_def target_reached)
  then show "maybeUnlockBird cards X U = None" .
  from none show "unlocked (collection (fst (awardXP cards s deltaXP comboMax))) = U"
    using assms(2,3) by (simp add: awardXP_def Let_def)
next
  assume lt: "int (length U) < min (X div 250) (int (length cards))"
  then have short: "length U < length cards" by simp
  from short_list_misses_a_card [OF assms(1) short]
  obtain b rest where f: "filter (\<lambda>b. bird_id b \<notin> set U) cards = b # rest"
    by (cases "filter (\<lambda>b. bird_id b \<notin> set U) cards") auto
  from filter_first_index [OF f] obtain i where
    i: "i < length cards" "b = cards ! i" "bird_id (cards ! i) \<notin> set U"
       "\<forall>j<i. \<not> bird_id (cards ! j) \<notin> set U" by blast
  from lt have nle: "\<not> min (X div 250) (int (length cards)) \<le> int (length U)"
    by linarith
  have some: "maybeUnlockBird cards X U = Some (cards ! i)"
    using f i(2) by (simp add: maybeUnlockBird_def Let_def target_reached nle)
  then have "unlocked (collection (fst (awardXP cards s deltaXP comboMax)))
               = U @ [bird_id (cards ! i)]"
    using assms(2,3) by (simp add: awardXP_def Let_def)
  with some i show "\<exists>i<length cards.
       maybeUnlockBird cards X U = Some (cards ! i)
       \<and> bird_id (cards ! i) \<notin> set U
       \<and> (\<forall>j<i. bird_id (cards ! j) \<in> set U)
       \<and> unlocked (collection (fst (awardXP cards s deltaXP comboMax)))
           = U @ [bird_id (cards ! i)]"
    by blast
qed

theorem maybeUnlockBird_at_most_one_witness:
  "distinct (map bird_id example_cards)
   \<and> or0 (totalXP (best base_state)) + 1000 = 1000
   \<and> int (length (unlocked (collection base_state))) < min (1000 div 250) (int (length example_cards))
   \<and> maybeUnlockBird example_cards 1000 [] = Some (example_cards ! 0)
   \<and> unlocked (collection (fst (awardXP example_cards base_state 1000 4))) = [''b1'']"
  using maybeUnlockBird_at_most_one [of example_cards 1000 base_state 1000 "[]" 4]
  by (simp add: example_cards_def base_state_def or0_def maybeUnlockBird_def awardXP_def
      clamp_def Let_def)

subsection \<open>Form resolver\<close>

text \<open>
  C9, as the lexicon has it. Every noun of the lexicon has both forms; the accusative
  differs from the nominative for every noun that is not neuter, and the two coincide
  for every neuter noun (verbum, bellum, donum, oppidum).
\<close>

theorem nounForm_acc_differs_unless_neuter:
  "\<forall>x\<in>set NOUNS.
     (\<exists>a b. nounForm x accSg = Some a \<and> nounForm x nomSg = Some b
        \<and> (noun_gender x \<noteq> gender_n \<longrightarrow> a \<noteq> b)
        \<and> (noun_gender x = gender_n \<longrightarrow> a = b))"
  by (simp add: NOUNS_def mkNoun_def nounForm_def)

theorem nounForm_acc_differs_unless_neuter_witness:
  "NOUNS ! 0 \<in> set NOUNS \<and> noun_gender (NOUNS ! 0) \<noteq> gender_n
   \<and> nounForm (NOUNS ! 0) accSg = Some ''puellam'' \<and> nounForm (NOUNS ! 0) nomSg = Some ''puella''
   \<and> nounForm (NOUNS ! 0) accSg \<noteq> nounForm (NOUNS ! 0) nomSg"
proof -
  have mem: "NOUNS ! 0 \<in> set NOUNS" by (simp add: NOUNS_def)
  from nounForm_acc_differs_unless_neuter mem
  have "\<exists>a b. nounForm (NOUNS ! 0) accSg = Some a \<and> nounForm (NOUNS ! 0) nomSg = Some b
          \<and> (noun_gender (NOUNS ! 0) \<noteq> gender_n \<longrightarrow> a \<noteq> b)
          \<and> (noun_gender (NOUNS ! 0) = gender_n \<longrightarrow> a = b)"
    by (rule bspec)
  with mem show ?thesis
    by (simp add: NOUNS_def mkNoun_def nounForm_def)
qed

text \<open>
  The claim as stated fails at the noun verbum, a noun of the second declension with both
  forms defined and equal.
\<close>

theorem nounForm_verbum_counterexample:
  "NOUNS ! 14 \<in> set NOUNS \<and> noun_id (NOUNS ! 14) = ''verbum'' \<and> decl (NOUNS ! 14) = 2
   \<and> nounForm (NOUNS ! 14) nomSg = Some ''verbum''
   \<and> nounForm (NOUNS ! 14) accSg = Some ''verbum''
   \<and> \<not> (nounForm (NOUNS ! 14) accSg \<noteq> nounForm (NOUNS ! 14) nomSg)"
  by (simp add: NOUNS_def mkNoun_def nounForm_def)

text \<open>
  C8. The resolver \<^verbatim>\<open>adjForm\<close> has no failing branch: on every adjective, case and
  gender it yields the cell of the agreement table, or \<^verbatim>\<open>undefined\<close> when the entry has
  no such cell. The generator takes the result through \<^verbatim>\<open>|| adj.lemma\<close>, so what it
  uses is always a string: the cell when there is a non-empty one, and the lemma of the
  adjective when the combination is undefined.
\<close>

theorem adjForm_falls_back_to_lemma:
  "(adjForm a c g = None \<longrightarrow> adjForm_or_lemma a c g = adj_lemma a)
   \<and> (\<forall>w. adjForm a c g = Some w \<and> w \<noteq> [] \<longrightarrow> adjForm_or_lemma a c g = w)
   \<and> (adjForm a c g = Some [] \<longrightarrow> adjForm_or_lemma a c g = adj_lemma a)
   \<and> (adjForm a c g = None \<longleftrightarrow>
        (case adj_forms a of
           None \<Rightarrow> True
         | Some fs \<Rightarrow> (case map_of fs c of None \<Rightarrow> True | Some row \<Rightarrow> map_of row g = None)))"
  by (auto simp: adjForm_or_lemma_def js_or_def adjForm_def split: option.splits)

theorem adjForm_falls_back_to_lemma_witness:
  "adjForm (ADJECTIVES ! 0) nomSg gender_f = Some ''bona''
   \<and> adjForm_or_lemma (ADJECTIVES ! 0) nomSg gender_f = ''bona''
   \<and> adjForm ((ADJECTIVES ! 0)\<lparr>adj_forms := Some [(nomSg, [(gender_m, ''bonus'')])]\<rparr>)
       accSg gender_f = None
   \<and> adjForm_or_lemma ((ADJECTIVES ! 0)\<lparr>adj_forms := Some [(nomSg, [(gender_m, ''bonus'')])]\<rparr>)
       accSg gender_f = ''bonus''"
  using adjForm_falls_back_to_lemma [of "ADJECTIVES ! 0" nomSg gender_f]
    adjForm_falls_back_to_lemma
      [of "(ADJECTIVES ! 0)\<lparr>adj_forms := Some [(nomSg, [(gender_m, ''bonus'')])]\<rparr>"
          accSg gender_f]
  by (simp add: ADJECTIVES_def mkAdj_def adjForm_def)

subsection \<open>The challenge generator\<close>

lemma valid_rng_tail: "valid_rng g \<Longrightarrow> valid_rng (snd (random g))"
  by (simp add: valid_rng_def random_def)

lemma random_range: "valid_rng g \<Longrightarrow> 0 \<le> fst (random g) \<and> fst (random g) < 1"
  by (simp add: valid_rng_def random_def)

lemma scaled_index:
  assumes "0 \<le> r" and "r < 1" and "0 < k"
  shows "0 \<le> \<lfloor>r * real k\<rfloor> \<and> \<lfloor>r * real k\<rfloor> < int k"
proof
  from assms show "0 \<le> \<lfloor>r * real k\<rfloor>" by simp
  from assms have "r * real k < 1 * real k"
    by (intro mult_strict_right_mono) simp_all
  then have "r * real k < of_int (int k)" by simp
  then show "\<lfloor>r * real k\<rfloor> < int k" by (simp only: floor_less_iff)
qed

lemma pick_nonempty:
  assumes "valid_rng g" and "arr \<noteq> []"
  shows "\<exists>x\<in>set arr. pick arr g = (Some x, snd (random g))"
proof -
  obtain r g' where rg: "random g = (r, g')" by (cases "random g")
  with random_range [OF assms(1)] have r: "0 \<le> r" "r < 1" by simp_all
  from assms(2) have pos: "0 < length arr" by simp
  from scaled_index [OF r pos]
  have i: "0 \<le> \<lfloor>r * real (length arr)\<rfloor>" "\<lfloor>r * real (length arr)\<rfloor> < int (length arr)"
    by simp_all
  then have "nat \<lfloor>r * real (length arr)\<rfloor> < length arr" by linarith
  then have "arr ! nat \<lfloor>r * real (length arr)\<rfloor> \<in> set arr" by (rule nth_mem)
  moreover have "pick arr g = (Some (arr ! nat \<lfloor>r * real (length arr)\<rfloor>), g')"
    using i rg by (simp add: pick_def Let_def)
  ultimately show ?thesis using rg by auto
qed

lemma other_noun_exists: "filter (\<lambda>x. noun_id x \<noteq> i) NOUNS \<noteq> []"
proof -
  have "noun_id (NOUNS ! 0) \<noteq> i \<or> noun_id (NOUNS ! 1) \<noteq> i"
    by (auto simp: NOUNS_def mkNoun_def)
  moreover have "NOUNS ! 0 \<in> set NOUNS" "NOUNS ! 1 \<in> set NOUNS"
    by (simp_all add: NOUNS_def)
  ultimately show ?thesis
    by (auto simp: filter_empty_conv)
qed

lemma other_verb_exists: "filter (\<lambda>v. verb_id v \<noteq> i) VERBS \<noteq> []"
proof -
  have "verb_id (VERBS ! 0) \<noteq> i \<or> verb_id (VERBS ! 1) \<noteq> i"
    by (auto simp: VERBS_def mkVerb_def)
  moreover have "VERBS ! 0 \<in> set VERBS" "VERBS ! 1 \<in> set VERBS"
    by (simp_all add: VERBS_def)
  ultimately show ?thesis
    by (auto simp: filter_empty_conv)
qed

lemma makeChallenge_shape:
  assumes "valid_rng g"
  shows "\<exists>subj obj vb a t line g'.
           makeChallenge n g = Inr (challenge_of n subj obj vb a t line, g')
           \<and> valid_rng g'
           \<and> subj \<in> set NOUNS \<and> noun_id subj \<noteq> ''verbum''
           \<and> obj \<in> set NOUNS \<and> noun_id obj \<noteq> noun_id subj
           \<and> vb \<in> set VERBS \<and> a \<in> set ADJECTIVES"
proof -
  let ?g1 = "snd (random g)"
  let ?g2 = "snd (random ?g1)"
  let ?g3 = "snd (random ?g2)"
  have v1: "valid_rng ?g1" using assms by (rule valid_rng_tail)
  have v2: "valid_rng ?g2" using v1 by (rule valid_rng_tail)
  have v3: "valid_rng ?g3" using v2 by (rule valid_rng_tail)
  obtain subj where subj: "subj \<in> set (filter (\<lambda>x. noun_id x \<noteq> ''verbum'') NOUNS)"
      "pick (filter (\<lambda>x. noun_id x \<noteq> ''verbum'') NOUNS) g = (Some subj, ?g1)"
    using pick_nonempty [OF assms other_noun_exists [of "''verbum''"]] by blast
  obtain obj where obj: "obj \<in> set (filter (\<lambda>x. noun_id x \<noteq> noun_id subj) NOUNS)"
      "pick (filter (\<lambda>x. noun_id x \<noteq> noun_id subj) NOUNS) ?g1 = (Some obj, ?g2)"
    using pick_nonempty [OF v1 other_noun_exists [of "noun_id subj"]] by blast
  have "VERBS \<noteq> []" by (simp add: VERBS_def)
  from pick_nonempty [OF v2 this] obtain vb where vb: "vb \<in> set VERBS"
      "pick VERBS ?g2 = (Some vb, ?g3)" by blast
  let ?lines = "[''Sighting logged!'', ''Field note added!'', ''Checklist updated!'',
                  ''Rare behavior observed!'']"
  have lines: "?lines \<noteq> []" by simp
  show ?thesis
  proof (cases "at_least n 4")
    case False
    from pick_nonempty [OF v3 lines] obtain line where line:
      "pick ?lines ?g3 = (Some line, snd (random ?g3))" by blast
    have "makeChallenge n g
            = Inr (challenge_of n subj obj vb (ADJECTIVES ! 0) subject_target line, snd (random ?g3))"
      using False subj(2) obj(2) vb(2) line
      by (simp add: makeChallenge_def challenge_of_def Let_def str_of_def)
    moreover have "valid_rng (snd (random ?g3))" using v3 by (rule valid_rng_tail)
    moreover have "ADJECTIVES ! 0 \<in> set ADJECTIVES" by (simp add: ADJECTIVES_def)
    ultimately show ?thesis using subj(1) obj(1) vb(1) by fastforce
  next
    case True
    let ?g4 = "snd (random ?g3)"
    let ?g5 = "snd (random ?g4)"
    have v4: "valid_rng ?g4" using v3 by (rule valid_rng_tail)
    have v5: "valid_rng ?g5" using v4 by (rule valid_rng_tail)
    have "ADJECTIVES \<noteq> []" by (simp add: ADJECTIVES_def)
    from pick_nonempty [OF v3 this] obtain a where a: "a \<in> set ADJECTIVES"
      "pick ADJECTIVES ?g3 = (Some a, ?g4)" by blast
    let ?r = "fst (random ?g4)"
    from pick_nonempty [OF v5 lines] obtain line where line:
      "pick ?lines ?g5 = (Some line, snd (random ?g5))" by blast
    let ?t = "if ?r < 1 / 2 then subject_target else object_target"
    have "makeChallenge n g = Inr (challenge_of n subj obj vb a ?t line, snd (random ?g5))"
      using True subj(2) obj(2) vb(2) a(2) line
      by (simp add: makeChallenge_def challenge_of_def Let_def str_of_def split_beta)
    moreover have "valid_rng (snd (random ?g5))" using v5 by (rule valid_rng_tail)
    ultimately show ?thesis using subj(1) obj(1) vb(1) a(1) by fastforce
  qed
qed

lemma challenge_of_fields [simp]:
  "subject (challenge_of n subj obj vb a t line) = subj"
  "object (challenge_of n subj obj vb a t line) = obj"
  "verb (challenge_of n subj obj vb a t line) = vb"
  "len (challenge_of n subj obj vb a t line) = n"
  by (simp_all add: challenge_of_def)

text \<open>
  C10. Whatever the random values and the length asked for (a number, or \<^verbatim>\<open>undefined\<close>),
  \<^verbatim>\<open>makeChallenge\<close> returns a challenge whose subject is not the noun verbum (and whose
  object is another noun than the subject); and there are random values for which the
  object is verbum.
\<close>

theorem makeChallenge_subject_not_verbum:
  "(valid_rng g \<longrightarrow>
      (\<exists>ch g'. makeChallenge n g = Inr (ch, g') \<and> noun_id (subject ch) \<noteq> ''verbum''
         \<and> noun_id (object ch) \<noteq> noun_id (subject ch)))
   \<and> (\<exists>g0 ch g'. valid_rng g0 \<and> makeChallenge n g0 = Inr (ch, g')
         \<and> noun_id (object ch) = ''verbum'')"
proof
  show "valid_rng g \<longrightarrow>
      (\<exists>ch g'. makeChallenge n g = Inr (ch, g') \<and> noun_id (subject ch) \<noteq> ''verbum''
         \<and> noun_id (object ch) \<noteq> noun_id (subject ch))"
  proof
    assume "valid_rng g"
    from makeChallenge_shape [OF this, of n] show "\<exists>ch g'. makeChallenge n g = Inr (ch, g') \<and> noun_id (subject ch) \<noteq> ''verbum''
         \<and> noun_id (object ch) \<noteq> noun_id (subject ch)"
      by force
  qed
  let ?g0 = "\<lambda>i::nat. if i = 1 then 7 / 10 else (0::real)"
  have v: "valid_rng ?g0" by (simp add: valid_rng_def)
  have "\<exists>ch g'. makeChallenge n ?g0 = Inr (ch, g') \<and> noun_id (object ch) = ''verbum''"
    by (cases "at_least n 4")
      (simp_all add: makeChallenge_def pick_def random_def Let_def NOUNS_def VERBS_def
        ADJECTIVES_def mkNoun_def mkVerb_def mkAdj_def)
  with v show "\<exists>g0 ch g'. valid_rng g0 \<and> makeChallenge n g0 = Inr (ch, g')
         \<and> noun_id (object ch) = ''verbum''"
    by blast
qed

theorem makeChallenge_subject_not_verbum_witness:
  "valid_rng (\<lambda>_. 0)
   \<and> (\<exists>ch g'. makeChallenge (Some 3) (\<lambda>_. 0) = Inr (ch, g')
        \<and> noun_id (subject ch) = ''puella'' \<and> noun_id (subject ch) \<noteq> ''verbum'')"
  using makeChallenge_subject_not_verbum [of "\<lambda>_. 0" "Some 3"]
  by (simp add: valid_rng_def makeChallenge_def pick_def random_def Let_def NOUNS_def VERBS_def
        mkNoun_def mkVerb_def at_least_def)



lemma popLast_snoc: "popLast (xs @ [x]) = xs"
  by (simp add: popLast_def)

lemma popLast_Nil: "popLast [] = []"
  by (simp add: popLast_def)

text \<open>
  C4. When a tap fills the last slot and the sentence is wrong, the tile stays appended and
  the one timeout that the handler sets removes exactly this last tile: the partial answer
  is again what it was before the tap, all earlier tiles kept, and it is not emptied as
  long as the sentence has two tiles or more. \<^verbatim>\<open>popLast\<close> of the empty list is the empty
  list.
\<close>

theorem wrong_sentence_pops_last_tile:
  "(s_phase st = playing
      \<and> length (answer st) + 1 = length (latin (challenge st))
      \<and> \<not> list_ex (\<lambda>a. tile_id a = tile_id tile) (answer st)
      \<and> js_join '' '' (map tile_text (answer st @ [tile])) \<noteq> js_join '' '' (latin (challenge st))
    \<longrightarrow> (\<exists>st'. tapTile dk st tile = (st', [PopAnswer])
           \<and> answer st' = answer st @ [tile]
           \<and> answer (fst (sighting_fire st' PopAnswer)) = answer st
           \<and> popLast (answer st') = butlast (answer st')
           \<and> (2 \<le> length (latin (challenge st)) \<longrightarrow> answer (fst (sighting_fire st' PopAnswer)) \<noteq> [])))
   \<and> popLast ([] :: Tile list) = []"
  by (auto simp: tapTile_def Let_def popLast_def)


subsection \<open>Concrete rounds\<close>


theorem wrong_sentence_pops_last_tile_witness:
  "(\<exists>st'. tapTile ''normal'' (example_sighting\<lparr>answer := [tiles example_sighting ! 2,
                 tiles example_sighting ! 4]\<rparr>) (tiles example_sighting ! 3) = (st', [PopAnswer])
           \<and> answer st' = [tiles example_sighting ! 2, tiles example_sighting ! 4,
                            tiles example_sighting ! 3]
           \<and> answer (fst (sighting_fire st' PopAnswer))
               = [tiles example_sighting ! 2, tiles example_sighting ! 4])"
  using wrong_sentence_pops_last_tile [where st = "example_sighting\<lparr>answer :=
            [tiles example_sighting ! 2, tiles example_sighting ! 4]\<rparr>"
          and tile = "tiles example_sighting ! 3" and dk = "''normal''"]
  by (simp add: example_sighting_def example_challenge_def str_of_def) blast

subsection \<open>Round end and the lifetime record\<close>

text \<open>
  C5, the code at a failing input. A matching round on easy, all four pairs resolved at 28
  seconds: the round's score is 67 + 73 + 79 + 85 = 304 and its combo 4. The timeout set
  by the last \<^verbatim>\<open>chooseMeaning\<close> calls the \<^verbatim>\<open>finishRound\<close> of the render in which the
  handler ran, whose \<^verbatim>\<open>score\<close> and \<^verbatim>\<open>combo\<close> are those before the last pair, so
  \<^verbatim>\<open>onRoundEnd\<close> receives the score 219 and the combo 3, and the lifetime record grows
  by 219: the award of the round's last correct action is missing.
\<close>

theorem match_round_complete_reports_stale_score:
  "\<exists>st t. resolve_pairs ''easy'' example_match [''amo'', ''bonus'', ''puella-nom'', ''avis-acc'']
             = Inr (st, [t])
     \<and> doneIds st = [''amo'', ''bonus'', ''puella-nom'', ''avis-acc'']
     \<and> m_score st = Some 304 \<and> m_combo st = 4
     \<and> snd (match_fire st t) = \<lparr>re_mode = ''Match'', re_score = Some 219, re_comboMax = 3\<rparr>
     \<and> map_option (\<lambda>next. best (fst next))
           (onRoundEnd example_cards base_state (snd (match_fire st t)))
         = Some \<lparr>highScore = 219, bestStreak = 3, totalXP = 219\<rparr>"
  by (simp add: example_match_def chooseLatin_def chooseMeaning_def itemById_def
      finishRound_of_def xpFor_def conf_of_def DIFFICULTY_def clamp_def js_round_def Let_def
      js_add_def onRoundEnd_def awardXP_def base_state_def or0_def maybeUnlockBird_def example_cards_def)

text \<open>
  The construction mode hands the values computed by the handler to \<^verbatim>\<open>onRoundEnd\<close>: the
  round end carries the score and the combo that the state shows.
\<close>

lemma sighting_round_complete_reports_final_score:
  assumes "tapTile dk st tile = (st', [CompleteSighting newScore nextCombo])"
  shows "snd (sighting_fire st' (CompleteSighting newScore nextCombo))
           = Some \<lparr>re_mode = ''Sighting Log'', re_score = s_score st', re_comboMax = s_combo st'\<rparr>"
  using assms by (auto simp: tapTile_def Let_def split: if_splits)

text \<open>
  When the time runs out, \<^verbatim>\<open>finishRound\<close> reports the combo of that moment: after one
  right pair and one wrong one it is 0, although the round reached a combo of 1.
\<close>

lemma match_time_up_reports_current_combo:
  "\<exists>st1 st2 st3.
     resolve_pairs ''easy'' example_match [''amo''] = Inr (st1, [])
     \<and> m_combo st1 = 1
     \<and> chooseLatin False st1 ''bonus'' = Inr st2
     \<and> chooseMeaning ''easy'' st2 ''avis-acc'' = Inr (st3, [])
     \<and> snd (match_timeEffect (st3\<lparr>m_secondsLeft := Some 0\<rparr>))
         = Some \<lparr>re_mode = ''Match'', re_score = Some 67, re_comboMax = 0\<rparr>"
  by (simp add: example_match_def chooseLatin_def chooseMeaning_def itemById_def
      finishRound_of_def xpFor_def conf_of_def DIFFICULTY_def clamp_def js_round_def Let_def
      js_add_def js_le_def match_timeEffect_def)

subsection \<open>Shuffling and the tile set\<close>

lemma shuffle_loop_perm:
  "valid_rng g \<Longrightarrow> k < length a \<Longrightarrow>
     mset (fst (shuffle_loop k a g)) = mset a \<and> valid_rng (snd (shuffle_loop k a g))"
proof (induction k arbitrary: a g)
  case 0
  then show ?case by simp
next
  case (Suc k)
  let ?r = "fst (random g)"
  let ?g' = "snd (random g)"
  let ?j = "nat \<lfloor>?r * real (Suc k + 1)\<rfloor>"
  let ?a' = "a[Suc k := a ! ?j, ?j := a ! Suc k]"
  from random_range [OF Suc.prems(1)] have r: "0 \<le> ?r" "?r < 1" by simp_all
  have "0 < Suc k + 1" by simp
  from scaled_index [OF r this] have "?j < Suc k + 1" by linarith
  with Suc.prems(2) have j: "?j < length a" by simp
  have perm: "mset ?a' = mset a"
    using mset_swap [OF j Suc.prems(2)] by simp
  have len: "k < length ?a'" using Suc.prems(2) by simp
  have v: "valid_rng ?g'" using Suc.prems(1) by (rule valid_rng_tail)
  have step: "shuffle_loop (Suc k) a g = shuffle_loop k ?a' ?g'"
    by (simp add: Let_def split_beta)
  from Suc.IH [OF v len] perm step show ?case by simp
qed

lemma shuffle_perm:
  assumes "valid_rng g"
  shows "mset (fst (shuffle arr g)) = mset arr \<and> valid_rng (snd (shuffle arr g))"
proof (cases arr)
  case Nil
  with assms show ?thesis by (simp add: shuffle_def)
next
  case (Cons x xs)
  then have "length arr - 1 < length arr" by simp
  from shuffle_loop_perm [OF assms this] show ?thesis by (simp add: shuffle_def)
qed

lemma length_correctTiles [simp]: "length (correctTiles ch) = length (latin ch)"
  by (simp add: correctTiles_def)

lemma length_adjDecoy: "length (adjDecoy ch) \<le> 1"
  by (simp add: adjDecoy_def Let_def split: option.splits)

lemma length_decoys: "length (decoys ch ov) = 3 + length (adjDecoy ch)"
  by (simp add: decoys_def)

lemma makeTiles_shape:
  assumes "valid_rng g" and "length (latin ch) \<le> 6"
  shows "\<exists>ov ts g'. makeTiles ch g = Inr (ts, g') \<and> valid_rng g'
           \<and> ov \<in> set VERBS \<and> verb_id ov \<noteq> verb_id (verb ch)
           \<and> mset ts = mset (correctTiles ch @ decoys ch ov)"
proof -
  let ?g1 = "snd (random g)"
  have v1: "valid_rng ?g1" using assms(1) by (rule valid_rng_tail)
  obtain ov where ov: "ov \<in> set (filter (\<lambda>v. verb_id v \<noteq> verb_id (verb ch)) VERBS)"
      "pick (filter (\<lambda>v. verb_id v \<noteq> verb_id (verb ch)) VERBS) g = (Some ov, ?g1)"
    using pick_nonempty [OF assms(1) other_verb_exists [of "verb_id (verb ch)"]] by blast
  let ?all = "correctTiles ch @ decoys ch ov"
  let ?s1 = "shuffle ?all ?g1"
  let ?s2 = "shuffle (take 10 (fst ?s1)) (snd ?s1)"
  from shuffle_perm [OF v1, of ?all]
  have p1: "mset (fst ?s1) = mset ?all" and v2: "valid_rng (snd ?s1)" by simp_all
  from p1 have "length (fst ?s1) = length ?all" by (rule mset_eq_length)
  also have "\<dots> \<le> 10"
    using assms(2) length_adjDecoy [of ch] by (simp add: length_decoys)
  finally have take: "take 10 (fst ?s1) = fst ?s1" by simp
  from shuffle_perm [OF v2, of "take 10 (fst ?s1)"]
  have p2: "mset (fst ?s2) = mset (fst ?s1)" and v3: "valid_rng (snd ?s2)"
    by (simp_all add: take)
  have mk: "makeTiles ch g = Inr (fst ?s2, snd ?s2)"
    using ov(2) by (simp add: makeTiles_def Let_def split_beta)
  have p: "mset (fst ?s2) = mset ?all" using p1 p2 by simp
  from ov(1) have ov': "ov \<in> set VERBS" "verb_id ov \<noteq> verb_id (verb ch)" by simp_all
  from mk v3 ov' p show ?thesis by blast
qed

lemma latin_challenge_of:
  "length (latin (challenge_of n subj obj vb a t line)) = (if at_least n 4 then 4 else 3)"
  by (simp add: challenge_of_def)

lemma sighting_start_shape:
  assumes "valid_rng g"
  shows "\<exists>subj obj vb a t line ov ts g'.
           sighting_start dk g =
             Inr (\<lparr>s_phase = playing, s_secondsLeft = map_option time (conf_of dk),
                   challenge = challenge_of (map_option sentenceLen (conf_of dk)) subj obj vb a t line,
                   tiles = ts, answer = [], s_combo = 0, s_score = Some 0, s_message = None,
                   s_endNote = None\<rparr>, g')
           \<and> subj \<in> set NOUNS \<and> noun_id subj \<noteq> ''verbum''
           \<and> obj \<in> set NOUNS \<and> noun_id obj \<noteq> noun_id subj
           \<and> vb \<in> set VERBS \<and> a \<in> set ADJECTIVES
           \<and> ov \<in> set VERBS \<and> verb_id ov \<noteq> verb_id vb
           \<and> mset ts = mset (correctTiles (challenge_of (map_option sentenceLen (conf_of dk)) subj obj vb a t line)
                              @ decoys (challenge_of (map_option sentenceLen (conf_of dk)) subj obj vb a t line) ov)"
proof -
  let ?n = "map_option sentenceLen (conf_of dk)"
  from makeChallenge_shape [OF assms, of ?n] obtain subj obj vb a t line g1 where
    ch: "makeChallenge ?n g = Inr (challenge_of ?n subj obj vb a t line, g1)"
    and v1: "valid_rng g1"
    and lex: "subj \<in> set NOUNS" "noun_id subj \<noteq> ''verbum''" "obj \<in> set NOUNS"
      "noun_id obj \<noteq> noun_id subj" "vb \<in> set VERBS" "a \<in> set ADJECTIVES"
    by blast
  let ?ch = "challenge_of ?n subj obj vb a t line"
  have "length (latin ?ch) \<le> 6" by (simp add: latin_challenge_of)
  from makeTiles_shape [OF v1 this] obtain ov ts g2 where
    ts: "makeTiles ?ch g1 = Inr (ts, g2)" "ov \<in> set VERBS" "verb_id ov \<noteq> verb_id (verb ?ch)"
      "mset ts = mset (correctTiles ?ch @ decoys ?ch ov)"
    by blast
  have "sighting_start dk g =
          Inr (\<lparr>s_phase = playing, s_secondsLeft = map_option time (conf_of dk), challenge = ?ch,
                tiles = ts, answer = [], s_combo = 0, s_score = Some 0, s_message = None,
                s_endNote = None\<rparr>, g2)"
    using ch ts(1) by (simp add: sighting_start_def Let_def)
  with lex ts(2,3,4) show ?thesis by (simp del: mset_append) blast
qed

lemma correctTiles_all_correct: "filter tile_correct (correctTiles ch) = correctTiles ch"
  by (simp add: correctTiles_def filter_map o_def split_beta)

lemma decoys_none_correct: "filter tile_correct (decoys ch ov) = []"
  by (simp add: decoys_def adjDecoy_def Let_def split: option.splits)

lemma decoys_ids_distinct: "distinct (map tile_id (decoys ch ov))"
  by (simp add: decoys_def adjDecoy_def Let_def split: option.splits)

lemma length_decoys_challenge_of:
  "length (decoys (challenge_of n subj obj vb a t line) ov) = (if at_least n 4 then 4 else 3)"
  by (simp add: decoys_def adjDecoy_def challenge_of_def Let_def)

lemma count_by_flag:
  assumes "mset ts = mset (correctTiles ch @ decoys ch ov)"
  shows "length (filter tile_correct ts) = length (latin ch)"
    and "length (filter (\<lambda>t. \<not> tile_correct t) ts) = length (decoys ch ov)"
    and "length ts = length (latin ch) + length (decoys ch ov)"
proof -
  from assms have "mset (filter tile_correct ts)
      = mset (filter tile_correct (correctTiles ch @ decoys ch ov))"
    by (simp only: mset_filter)
  then have "length (filter tile_correct ts)
      = length (filter tile_correct (correctTiles ch @ decoys ch ov))"
    by (rule mset_eq_length)
  then show c: "length (filter tile_correct ts) = length (latin ch)"
    by (simp add: correctTiles_all_correct decoys_none_correct)
  from assms have "length ts = length (correctTiles ch @ decoys ch ov)"
    by (rule mset_eq_length)
  then show l: "length ts = length (latin ch) + length (decoys ch ov)" by simp
  have "length ts = length (filter tile_correct ts) + length (filter (\<lambda>t. \<not> tile_correct t) ts)"
    by (rule sum_length_filter_compl [symmetric])
  with c l show "length (filter (\<lambda>t. \<not> tile_correct t) ts) = length (decoys ch ov)" by simp
qed

text \<open>
  C7, as the code has it. For every random source a round of the construction mode
  starts, and its tiles are a permutation of the correct tiles together with the decoys
  built for the challenge, which are distinct tiles: three decoys, four when the sentence
  has an adjective. That is six or eight tiles, so the cap of 10 cuts nothing; the number
  of decoy tiles offered equals the number of decoys built and is at most 10 minus the
  number of correct tokens.
\<close>

theorem tiles_are_correct_plus_decoys:
  assumes "valid_rng g"
  shows "\<exists>st g' ov. sighting_start dk g = Inr (st, g')
     \<and> mset (tiles st) = mset (correctTiles (challenge st) @ decoys (challenge st) ov)
     \<and> distinct (map tile_id (decoys (challenge st) ov))
     \<and> length (tiles st) \<le> 10
     \<and> length (filter tile_correct (tiles st)) = length (latin (challenge st))
     \<and> length (filter (\<lambda>t. \<not> tile_correct t) (tiles st)) = length (decoys (challenge st) ov)
     \<and> length (decoys (challenge st) ov)
         = (if at_least (map_option sentenceLen (conf_of dk)) 4 then 4 else 3)
     \<and> length (filter (\<lambda>t. \<not> tile_correct t) (tiles st)) \<le> 10 - length (latin (challenge st))
     \<and> length (tiles st)
         = (if at_least (map_option sentenceLen (conf_of dk)) 4 then 8 else 6)"
proof -
  let ?n = "map_option sentenceLen (conf_of dk)"
  from sighting_start_shape [OF assms, of dk] obtain subj obj vb a t line ov ts g' where
    st: "sighting_start dk g =
             Inr (\<lparr>s_phase = playing, s_secondsLeft = map_option time (conf_of dk),
                   challenge = challenge_of ?n subj obj vb a t line,
                   tiles = ts, answer = [], s_combo = 0, s_score = Some 0, s_message = None,
                   s_endNote = None\<rparr>, g')"
    and p: "mset ts = mset (correctTiles (challenge_of ?n subj obj vb a t line)
                              @ decoys (challenge_of ?n subj obj vb a t line) ov)"
    by blast
  let ?ch = "challenge_of ?n subj obj vb a t line"
  let ?st = "\<lparr>s_phase = playing, s_secondsLeft = map_option time (conf_of dk), challenge = ?ch,
              tiles = ts, answer = [], s_combo = 0, s_score = Some 0, s_message = None,
              s_endNote = None\<rparr>"
  note cnt = count_by_flag [OF p]
  have d: "length (decoys ?ch ov) = (if at_least ?n 4 then 4 else 3)"
    by (rule length_decoys_challenge_of)
  have l: "length (latin ?ch) = (if at_least ?n 4 then 4 else 3)"
    by (rule latin_challenge_of)
  have "mset (tiles ?st) = mset (correctTiles (challenge ?st) @ decoys (challenge ?st) ov)
     \<and> distinct (map tile_id (decoys (challenge ?st) ov))
     \<and> length (tiles ?st) \<le> 10
     \<and> length (filter tile_correct (tiles ?st)) = length (latin (challenge ?st))
     \<and> length (filter (\<lambda>t. \<not> tile_correct t) (tiles ?st)) = length (decoys (challenge ?st) ov)
     \<and> length (decoys (challenge ?st) ov) = (if at_least ?n 4 then 4 else 3)
     \<and> length (filter (\<lambda>t. \<not> tile_correct t) (tiles ?st)) \<le> 10 - length (latin (challenge ?st))
     \<and> length (tiles ?st) = (if at_least ?n 4 then 8 else 6)"
    using p cnt d l decoys_ids_distinct [of ?ch ov] by (simp del: mset_append)
  with st show ?thesis by blast
qed

lemma string_of_nat_digit: "k < 10 \<Longrightarrow> string_of_nat k = [digit_char k]"
  by (simp add: string_of_nat.simps)

lemma shuffle_loop_pos:
  "0 < k \<Longrightarrow> shuffle_loop k a g =
     (let (r, g') = random g; j = nat \<lfloor>r * real (k + 1)\<rfloor>
      in shuffle_loop (k - 1) (a[k := a ! j, j := a ! k]) g')"
  by (cases k) (simp_all add: Let_def)

lemma random_zero: "random zero_rng = (0, zero_rng)"
  by (simp add: random_def zero_rng_def)

lemma pick_zero: "arr \<noteq> [] \<Longrightarrow> pick arr zero_rng = (Some (arr ! 0), zero_rng)"
  by (simp add: pick_def random_zero)

lemma zero_challenge: "makeChallenge (Some 3) zero_rng = Inr (challenge zero_round, zero_rng)"
  by (simp add: makeChallenge_def pick_zero Let_def NOUNS_def VERBS_def mkNoun_def mkVerb_def
      nounForm_def str_of_def zero_round_def at_least_def)

lemma zero_correctTiles: "correctTiles (challenge zero_round) =
   [\<lparr>tile_id = ''c-0-puella'', tile_text = Some ''puella'', tile_correct = True\<rparr>,
    \<lparr>tile_id = ''c-1-amat'', tile_text = Some ''amat'', tile_correct = True\<rparr>,
    \<lparr>tile_id = ''c-2-feminam'', tile_text = Some ''feminam'', tile_correct = True\<rparr>]"
  by (simp add: correctTiles_def zero_round_def tmpl_def string_of_nat_digit digit_char_def
      enumerate_eq_zip upt_rec)

lemma shuffle_six_zero: "shuffle [a, b, c, d, e, f] zero_rng = ([b, c, d, e, f, a], zero_rng)"
  by (simp add: shuffle_def shuffle_loop_pos random_zero)

lemma zero_tiles: "makeTiles (challenge zero_round) zero_rng = Inr (tiles zero_round, zero_rng)"
proof -
  have ov: "pick (filter (\<lambda>v. verb_id v \<noteq> verb_id (verb (challenge zero_round))) VERBS) zero_rng
          = (Some (VERBS ! Suc 0), zero_rng)"
    by (simp add: pick_zero zero_round_def VERBS_def mkVerb_def)
  have d: "decoys (challenge zero_round) (VERBS ! Suc 0) =
     [\<lparr>tile_id = ''d-subj-wrong'', tile_text = Some ''puellam'', tile_correct = False\<rparr>,
      \<lparr>tile_id = ''d-obj-wrong'', tile_text = Some ''femina'', tile_correct = False\<rparr>,
      \<lparr>tile_id = ''d-verb'', tile_text = Some ''timet'', tile_correct = False\<rparr>]"
    by (simp add: decoys_def adjDecoy_def zero_round_def NOUNS_def VERBS_def mkNoun_def
        mkVerb_def nounForm_def)
  have t: "tiles zero_round =
     [\<lparr>tile_id = ''c-2-feminam'', tile_text = Some ''feminam'', tile_correct = True\<rparr>,
      \<lparr>tile_id = ''d-subj-wrong'', tile_text = Some ''puellam'', tile_correct = False\<rparr>,
      \<lparr>tile_id = ''d-obj-wrong'', tile_text = Some ''femina'', tile_correct = False\<rparr>,
      \<lparr>tile_id = ''d-verb'', tile_text = Some ''timet'', tile_correct = False\<rparr>,
      \<lparr>tile_id = ''c-0-puella'', tile_text = Some ''puella'', tile_correct = True\<rparr>,
      \<lparr>tile_id = ''c-1-amat'', tile_text = Some ''amat'', tile_correct = True\<rparr>]"
    by (simp add: zero_round_def)
  show ?thesis
    by (simp add: makeTiles_def ov zero_correctTiles d t shuffle_six_zero)
qed

lemma zero_round_start: "sighting_start ''normal'' zero_rng = Inr (zero_round, zero_rng)"
proof -
  have "sighting_start ''normal'' zero_rng =
          Inr (\<lparr>s_phase = playing, s_secondsLeft = Some 22, challenge = challenge zero_round,
                tiles = tiles zero_round, answer = [], s_combo = 0, s_score = Some 0,
                s_message = None, s_endNote = None\<rparr>, zero_rng)"
    by (simp add: sighting_start_def conf_of_def DIFFICULTY_def zero_challenge zero_tiles)
  also have "\<lparr>s_phase = playing, s_secondsLeft = Some 22, challenge = challenge zero_round,
                tiles = tiles zero_round, answer = [], s_combo = 0, s_score = Some 0,
                s_message = None, s_endNote = None\<rparr> = zero_round"
    by (simp add: zero_round_def)
  finally show ?thesis .
qed

text \<open>
  The claim as stated, at least 10 minus the number of correct tokens decoys, fails in
  the round of the zero source: three correct tokens, three decoys, and 10 - 3 = 7.
\<close>

theorem tiles_decoy_count_counterexample:
  "valid_rng zero_rng
   \<and> sighting_start ''normal'' zero_rng = Inr (zero_round, zero_rng)
   \<and> length (latin (challenge zero_round)) = 3
   \<and> length (filter (Not \<circ> tile_correct) (tiles zero_round)) = 3
   \<and> \<not> (10 - length (latin (challenge zero_round))
          \<le> length (filter (Not \<circ> tile_correct) (tiles zero_round)))"
  using zero_round_start by (simp add: valid_rng_def zero_rng_def zero_round_def)

theorem tiles_are_correct_plus_decoys_witness:
  "valid_rng zero_rng
   \<and> (\<exists>st g' ov. sighting_start ''normal'' zero_rng = Inr (st, g')
        \<and> st = zero_round
        \<and> mset (tiles st) = mset (correctTiles (challenge st) @ decoys (challenge st) ov)
        \<and> length (tiles st) \<le> 10
        \<and> length (filter (\<lambda>t. \<not> tile_correct t) (tiles st)) = 3)"
proof -
  have v: "valid_rng zero_rng" by (simp add: valid_rng_def zero_rng_def)
  have n: "map_option sentenceLen (conf_of ''normal'') = Some 3"
    by (simp add: conf_of_def DIFFICULTY_def)
  from tiles_are_correct_plus_decoys [OF v, of "''normal''"] obtain st g' ov where
    "sighting_start ''normal'' zero_rng = Inr (st, g')"
    "mset (tiles st) = mset (correctTiles (challenge st) @ decoys (challenge st) ov)"
    "length (tiles st) \<le> 10"
    "length (filter (\<lambda>t. \<not> tile_correct t) (tiles st)) = length (decoys (challenge st) ov)"
    "length (decoys (challenge st) ov) = 3"
    unfolding n by (auto simp: at_least_def)
  moreover from this(1) have "st = zero_round" by (simp add: zero_round_start)
  ultimately show ?thesis using v by auto
qed

subsection \<open>Validation of a constructed sentence\<close>

lemma split_at_space:
  "CHR '' '' \<notin> set a \<Longrightarrow> CHR '' '' \<notin> set b \<Longrightarrow>
     a @ CHR '' '' # r = b @ CHR '' '' # r' \<Longrightarrow> a = b \<and> r = r'"
proof (induction a arbitrary: b)
  case Nil
  then show ?case by (cases b) auto
next
  case (Cons x a)
  then show ?case by (cases b) auto
qed

lemma js_join_inj:
  "length xs = length ys \<Longrightarrow> \<forall>t\<in>set xs. is_word t \<Longrightarrow> \<forall>t\<in>set ys. is_word t \<Longrightarrow>
     js_join '' '' xs = js_join '' '' ys \<Longrightarrow> xs = ys"
proof (induction xs ys rule: list_induct2)
  case Nil
  then show ?case by simp
next
  case (Cons x xs y ys)
  from Cons.prems obtain a b where ab: "x = Some a" "y = Some b"
      "CHR '' '' \<notin> set a" "CHR '' '' \<notin> set b"
    by (auto simp: is_word_def split: option.splits)
  show ?case
  proof (cases xs)
    case Nil
    with Cons.hyps have "ys = []" by simp
    with Nil Cons.prems(3) ab show ?thesis by (simp add: str_of_def)
  next
    case (Cons x' xs')
    with Cons.hyps obtain y' ys' where ys: "ys = y' # ys'" by (cases ys) auto
    from Cons.prems(3) ab Cons ys
    have "a @ CHR '' '' # js_join '' '' xs = b @ CHR '' '' # js_join '' '' ys"
      by (simp add: str_of_def)
    from split_at_space [OF ab(3,4) this] have "a = b" "js_join '' '' xs = js_join '' '' ys"
      by simp_all
    moreover from Cons.prems have "\<forall>t\<in>set xs. is_word t" "\<forall>t\<in>set ys. is_word t" by simp_all
    ultimately show ?thesis using Cons.IH ab by simp
  qed
qed

lemma tapTiles_Cons: "tapTiles dk st (t # ts) = tapTiles dk (fst (tapTile dk st t)) ts"
  by (simp add: tapTiles_def)

lemma tapTiles_snoc: "tapTiles dk st (ts @ [t]) = fst (tapTile dk (tapTiles dk st ts) t)"
  by (simp add: tapTiles_def)

lemma tapTiles_partial:
  "s_phase st = playing \<Longrightarrow> distinct (map tile_id (answer st @ ts)) \<Longrightarrow>
     length (answer st) + length ts < length (latin (challenge st)) \<Longrightarrow>
     tapTiles dk st ts = st\<lparr>answer := answer st @ ts\<rparr>"
proof (induction ts arbitrary: st)
  case Nil
  then show ?case by (simp add: tapTiles_def)
next
  case (Cons t ts)
  let ?st' = "st\<lparr>answer := answer st @ [t]\<rparr>"
  from Cons.prems have "\<not> list_ex (\<lambda>a. tile_id a = tile_id t) (answer st)"
    by (fastforce simp: list_ex_iff image_iff)
  with Cons.prems have step: "tapTile dk st t = (?st', [])"
    by (simp add: tapTile_def Let_def)
  have "tapTiles dk ?st' ts = ?st'\<lparr>answer := answer ?st' @ ts\<rparr>"
    using Cons.prems by (intro Cons.IH) simp_all
  with step show ?case by (simp add: tapTiles_Cons)
qed

lemma tapTiles_full:
  assumes "s_phase st = playing" and "answer st = []"
    and "length ts = length (latin (challenge st))" and "distinct (map tile_id ts)"
    and "ts \<noteq> []"
  shows "s_message (tapTiles dk st ts) =
           (if js_join '' '' (map tile_text ts) = js_join '' '' (latin (challenge st))
            then Some msg_good else Some msg_try)"
    and "s_combo (tapTiles dk st ts) =
           (if js_join '' '' (map tile_text ts) = js_join '' '' (latin (challenge st))
            then s_combo st + 1 else 0)"
proof -
  from assms(5) obtain us u where ts: "ts = us @ [u]" by (cases ts rule: rev_cases) auto
  let ?st' = "st\<lparr>answer := us\<rparr>"
  have part: "tapTiles dk st us = ?st'"
    using assms ts tapTiles_partial [of st us dk] by simp
  have nodup: "\<not> list_ex (\<lambda>a. tile_id a = tile_id u) us"
    using assms(4) ts by (fastforce simp: list_ex_iff image_iff)
  have len: "length us + 1 = length (latin (challenge st))" using assms(3) ts by simp
  have full: "tapTiles dk st ts = fst (tapTile dk ?st' u)"
    unfolding ts tapTiles_snoc part ..
  show "s_message (tapTiles dk st ts) =
           (if js_join '' '' (map tile_text ts) = js_join '' '' (latin (challenge st))
            then Some msg_good else Some msg_try)"
    unfolding full using assms(1) nodup len ts by (simp add: tapTile_def Let_def)
  show "s_combo (tapTiles dk st ts) =
           (if js_join '' '' (map tile_text ts) = js_join '' '' (latin (challenge st))
            then s_combo st + 1 else 0)"
    unfolding full using assms(1) nodup len ts by (simp add: tapTile_def Let_def)
qed

lemma noun_words:
  "\<forall>x\<in>set NOUNS. is_word (nounForm x nomSg) \<and> is_word (nounForm x accSg)"
  by (simp add: NOUNS_def mkNoun_def nounForm_def is_word_def)

lemma verb_words: "\<forall>v\<in>set VERBS. CHR '' '' \<notin> set (pres3s v)"
  by (simp add: VERBS_def mkVerb_def)

lemma adj_words:
  "a \<in> set ADJECTIVES \<Longrightarrow> CHR '' '' \<notin> set (adjForm_or_lemma a c g)"
  by (cases c; cases g)
    (auto simp: ADJECTIVES_def mkAdj_def adjForm_or_lemma_def adjForm_def js_or_def)

lemma latin_words:
  assumes "subj \<in> set NOUNS" and "obj \<in> set NOUNS" and "vb \<in> set VERBS"
    and "a \<in> set ADJECTIVES"
  shows "\<forall>w\<in>set (latin (challenge_of n subj obj vb a t line)). is_word w"
  using noun_words assms(1,2) verb_words assms(3) adj_words [OF assms(4)]
  by (auto simp: challenge_of_def is_word_def)

lemma texts_correctTiles: "map tile_text (correctTiles ch) = latin ch"
  by (simp add: correctTiles_def o_def split_beta map_snd_enumerate)

lemma string_of_small:
  "string_of_nat 0 = ''0''" "string_of_nat (Suc 0) = ''1''"
  "string_of_nat (Suc (Suc 0)) = ''2''" "string_of_nat (Suc (Suc (Suc 0))) = ''3''"
  by (simp_all add: string_of_nat.simps digit_char_def)

lemma ids_correctTiles:
  "distinct (map tile_id (correctTiles (challenge_of n subj obj vb a t line)))"
  by (simp add: correctTiles_def challenge_of_def enumerate_eq_zip upt_rec string_of_small)

text \<open>
  C2. For every random source a round of the construction mode starts, and in it: every
  correct tile is among the offered tiles; a full sequence of tiles (as many as the
  sentence has tokens, no tile twice) tapped from the empty answer is judged correct, the
  message being the good one, exactly when its texts joined by spaces equal the expected
  tokens joined by spaces, and is judged incorrect otherwise; the correct tiles in the
  expected order are judged correct; and every rearrangement of the correct tiles whose
  sequence of texts differs from the expected one is judged incorrect.
\<close>

theorem construction_validation:
  assumes "valid_rng g"
  shows "\<exists>st g'. sighting_start dk g = Inr (st, g')
     \<and> set (correctTiles (challenge st)) \<subseteq> set (tiles st)
     \<and> (\<forall>ts. length ts = length (latin (challenge st)) \<and> distinct (map tile_id ts) \<longrightarrow>
           ((s_message (tapTiles dk st ts) = Some msg_good)
              = (js_join '' '' (map tile_text ts) = js_join '' '' (latin (challenge st))))
         \<and> ((s_message (tapTiles dk st ts) = Some msg_try)
              = (js_join '' '' (map tile_text ts) \<noteq> js_join '' '' (latin (challenge st)))))
     \<and> s_message (tapTiles dk st (correctTiles (challenge st))) = Some msg_good
     \<and> (\<forall>ts. mset ts = mset (correctTiles (challenge st))
              \<and> map tile_text ts \<noteq> latin (challenge st)
           \<longrightarrow> s_message (tapTiles dk st ts) = Some msg_try)"
proof -
  let ?n = "map_option sentenceLen (conf_of dk)"
  from sighting_start_shape [OF assms, of dk] obtain subj obj vb a t line ov tl g' where
    start: "sighting_start dk g =
             Inr (\<lparr>s_phase = playing, s_secondsLeft = map_option time (conf_of dk),
                   challenge = challenge_of ?n subj obj vb a t line,
                   tiles = tl, answer = [], s_combo = 0, s_score = Some 0, s_message = None,
                   s_endNote = None\<rparr>, g')"
    and lex: "subj \<in> set NOUNS" "obj \<in> set NOUNS" "vb \<in> set VERBS" "a \<in> set ADJECTIVES"
    and perm: "mset tl = mset (correctTiles (challenge_of ?n subj obj vb a t line)
                              @ decoys (challenge_of ?n subj obj vb a t line) ov)"
    by blast
  let ?ch = "challenge_of ?n subj obj vb a t line"
  let ?st = "\<lparr>s_phase = playing, s_secondsLeft = map_option time (conf_of dk), challenge = ?ch,
              tiles = tl, answer = [], s_combo = 0, s_score = Some 0, s_message = None,
              s_endNote = None\<rparr>"
  let ?ct = "correctTiles ?ch"
  have st: "s_phase ?st = playing" "answer ?st = []" "challenge ?st = ?ch" "tiles ?st = tl"
    by simp_all
  have len3: "3 \<le> length (latin ?ch)" by (simp add: latin_challenge_of)
  have words: "\<forall>w\<in>set (latin ?ch). is_word w" using lex by (rule latin_words)
  have sub: "set ?ct \<subseteq> set tl"
  proof -
    from perm have "set tl = set (?ct @ decoys ?ch ov)" by (rule mset_eq_setD)
    then show ?thesis by simp
  qed
  have judge: "s_message (tapTiles dk ?st ts) =
                 (if js_join '' '' (map tile_text ts) = js_join '' '' (latin ?ch)
                  then Some msg_good else Some msg_try)"
    if "length ts = length (latin ?ch)" and "distinct (map tile_id ts)" for ts
  proof -
    from that(1) len3 have "ts \<noteq> []" by auto
    from tapTiles_full(1) [of ?st ts dk] that this show ?thesis by simp
  qed
  have iff: "\<forall>ts. length ts = length (latin ?ch) \<and> distinct (map tile_id ts) \<longrightarrow>
           ((s_message (tapTiles dk ?st ts) = Some msg_good)
              = (js_join '' '' (map tile_text ts) = js_join '' '' (latin ?ch)))
         \<and> ((s_message (tapTiles dk ?st ts) = Some msg_try)
              = (js_join '' '' (map tile_text ts) \<noteq> js_join '' '' (latin ?ch)))"
    using judge by simp
  have right: "s_message (tapTiles dk ?st ?ct) = Some msg_good"
    using judge [of ?ct] ids_correctTiles [of ?n subj obj vb a t line]
    by (simp add: texts_correctTiles)
  have wrong: "s_message (tapTiles dk ?st ts) = Some msg_try"
    if p: "mset ts = mset ?ct" and ne: "map tile_text ts \<noteq> latin ?ch" for ts
  proof -
    from p have l: "length ts = length (latin ?ch)"
      using mset_eq_length [OF p] by simp
    from p have "mset (map tile_id ts) = mset (map tile_id ?ct)" by simp
    then have d: "distinct (map tile_id ts)"
      using ids_correctTiles [of ?n subj obj vb a t line] mset_eq_imp_distinct_iff by blast
    from p have "set ts = set ?ct" by (rule mset_eq_setD)
    then have "set (map tile_text ts) = set (map tile_text ?ct)" by simp
    with words have w: "\<forall>w\<in>set (map tile_text ts). is_word w"
      by (simp only: texts_correctTiles)
    have "js_join '' '' (map tile_text ts) \<noteq> js_join '' '' (latin ?ch)"
    proof
      assume "js_join '' '' (map tile_text ts) = js_join '' '' (latin ?ch)"
      with l w words have "map tile_text ts = latin ?ch"
        by (intro js_join_inj) simp_all
      with ne show False ..
    qed
    with judge [OF l d] show ?thesis by simp
  qed
  from start sub iff right wrong show ?thesis
    by (intro exI [of _ ?st] exI [of _ g']) (simp only: st, blast)
qed

theorem construction_validation_witness:
  "valid_rng zero_rng
   \<and> sighting_start ''normal'' zero_rng = Inr (zero_round, zero_rng)
   \<and> set (correctTiles (challenge zero_round)) \<subseteq> set (tiles zero_round)
   \<and> s_message (tapTiles ''normal'' zero_round
        [tiles zero_round ! 4, tiles zero_round ! 5, tiles zero_round ! 0]) = Some msg_good
   \<and> s_message (tapTiles ''normal'' zero_round
        [tiles zero_round ! 0, tiles zero_round ! 5, tiles zero_round ! 4]) = Some msg_try"
proof -
  have v: "valid_rng zero_rng" by (simp add: valid_rng_def zero_rng_def)
  let ?right = "[tiles zero_round ! 4, tiles zero_round ! 5, tiles zero_round ! 0]"
  let ?wrong = "[tiles zero_round ! 0, tiles zero_round ! 5, tiles zero_round ! 4]"
  from construction_validation [OF v, of "''normal''"]
  have sub: "set (correctTiles (challenge zero_round)) \<subseteq> set (tiles zero_round)"
    and right: "s_message (tapTiles ''normal'' zero_round (correctTiles (challenge zero_round)))
                  = Some msg_good"
    and wrong: "\<And>ts. mset ts = mset (correctTiles (challenge zero_round))
                  \<Longrightarrow> map tile_text ts \<noteq> latin (challenge zero_round)
                  \<Longrightarrow> s_message (tapTiles ''normal'' zero_round ts) = Some msg_try"
    unfolding zero_round_start by auto
  have r: "correctTiles (challenge zero_round) = ?right"
    unfolding zero_correctTiles by (simp add: zero_round_def)
  have "mset ?wrong = mset (correctTiles (challenge zero_round))"
    unfolding zero_correctTiles by (simp add: zero_round_def)
  moreover have "map tile_text ?wrong \<noteq> latin (challenge zero_round)"
    by (simp add: zero_round_def)
  ultimately have "s_message (tapTiles ''normal'' zero_round ?wrong) = Some msg_try"
    by (rule wrong)
  with v zero_round_start sub right show ?thesis
    unfolding r by simp
qed

subsection \<open>Loading and saving progress\<close>

lemmas base_defs = base_def base_player_def base_best_def base_collection_def base_settings_def

lemma own_JObj [simp]: "own_props (JObj m) = m"
  by (simp add: own_props_def)

lemma or_empty_obj [simp]: "or_empty (Some (JObj m)) = JObj m"
  by (simp add: or_empty_def truthy_def)

lemma or_empty_None [simp]: "or_empty None = JObj Map.empty"
  by (simp add: or_empty_def)

lemma encode_base: "encode base_state = base"
  by (simp add: encode_def base_state_def base_defs)

lemma load_absent: "loadState NoItem = Inr base" "loadState EmptyText = Inr base"
  by (simp_all add: loadState_def)

lemma load_bad: "loadState BadText = Inr base"
  by (simp add: loadState_def base_defs fun_eq_iff)

lemma stringified_encode: "stringified (encode s) = encode s"
  by (simp add: encode_def fun_eq_iff o_def)

lemma load_encode: "loadState (saveState (encode s)) = Inr (encode s)"
  unfolding saveState_def stringified_encode
  by (simp add: loadState_def encode_def base_defs fun_eq_iff)

lemma load_example:
  "loadState (JsonText (JObj [''best'' \<mapsto> JObj [''totalXP'' \<mapsto> JNum 500]]))
     = Inr (encode (base_state\<lparr>best := (best base_state)\<lparr>totalXP := 500\<rparr>\<rparr>))"
  by (simp add: loadState_def encode_def base_defs fun_eq_iff base_state_def)

text \<open>The stored text \<^verbatim>\<open>null\<close> parses, and loading it throws.\<close>

lemma load_null: "loadState (JsonText JNull) = Inl TypeError"
  by (simp add: loadState_def)

lemma load_json: "v \<noteq> JNull \<Longrightarrow> loadState (JsonText v) = Inr (JObj (merged v))"
  by (cases v) (simp_all add: loadState_def merged_def Let_def)

lemma merged_section:
  "sec \<in> sections \<Longrightarrow>
     \<exists>sm. merged v sec = Some (JObj sm)
        \<and> (\<forall>k. sm k = (case own_props (or_empty (own_props v sec)) k of
                          Some x \<Rightarrow> Some x
                        | None \<Rightarrow> path2 base sec k))"
  by (auto simp: sections_def merged_def path2_def base_defs map_add_def split: option.splits)

lemma merged_other: "k \<notin> sections \<Longrightarrow> merged v k = own_props v k"
  by (auto simp: sections_def merged_def base_defs map_add_def split: option.splits)

text \<open>
  A stored number beyond the doubles loads as an infinity, is saved as \<^verbatim>\<open>null\<close>, and
  loads as \<^verbatim>\<open>null\<close> the next time.
\<close>

lemma load_infinity_saved_as_null:
  "\<exists>w w'. loadState (JsonText (JObj [''best'' \<mapsto> JObj [''totalXP'' \<mapsto> JPosInf]])) = Inr w
      \<and> path2 w ''best'' ''totalXP'' = Some JPosInf
      \<and> loadState (saveState w) = Inr w'
      \<and> path2 w' ''best'' ''totalXP'' = Some JNull"
  by (simp add: loadState_def saveState_def base_defs path2_def)

text \<open>
  C6, as the code has it. An absent, empty or unparseable item loads as the record of
  baseline defaults. An item that parses to a value other than \<^verbatim>\<open>null\<close> loads as an object in which
  each of the four sections is an object that holds every field of the stored section
  with its stored value, whatever the value is, and the baseline default for every field
  the stored section lacks (a stored section that is missing or falsy has no fields), and
  in which every other top-level field of the stored value is kept. The record with only
  \<open>best.totalXP = 500\<close> loads with that total and the defaults everywhere else. Saving
  a well-formed record and loading it again gives the same record.
\<close>

theorem loadState_merges_fieldwise:
  "loadState NoItem = Inr base \<and> loadState EmptyText = Inr base \<and> loadState BadText = Inr base
   \<and> (v \<noteq> JNull \<longrightarrow>
        (\<exists>m. loadState (JsonText v) = Inr (JObj m)
           \<and> (\<forall>sec\<in>sections. \<exists>sm. m sec = Some (JObj sm)
                 \<and> (\<forall>k. sm k = (case own_props (or_empty (own_props v sec)) k of
                                   Some x \<Rightarrow> Some x
                                 | None \<Rightarrow> path2 base sec k)))
           \<and> (\<forall>k. k \<notin> sections \<longrightarrow> m k = own_props v k)))
   \<and> loadState (JsonText (JObj [''best'' \<mapsto> JObj [''totalXP'' \<mapsto> JNum 500]]))
       = Inr (encode (base_state\<lparr>best := (best base_state)\<lparr>totalXP := 500\<rparr>\<rparr>))
   \<and> loadState (saveState (encode s)) = Inr (encode s)"
proof -
  have "v \<noteq> JNull \<longrightarrow>
        (\<exists>m. loadState (JsonText v) = Inr (JObj m)
           \<and> (\<forall>sec\<in>sections. \<exists>sm. m sec = Some (JObj sm)
                 \<and> (\<forall>k. sm k = (case own_props (or_empty (own_props v sec)) k of
                                   Some x \<Rightarrow> Some x
                                 | None \<Rightarrow> path2 base sec k)))
           \<and> (\<forall>k. k \<notin> sections \<longrightarrow> m k = own_props v k))"
  proof
    assume "v \<noteq> JNull"
    then have "loadState (JsonText v) = Inr (JObj (merged v))" by (rule load_json)
    with merged_section [of _ v] merged_other [of _ v]
    show "\<exists>m. loadState (JsonText v) = Inr (JObj m)
           \<and> (\<forall>sec\<in>sections. \<exists>sm. m sec = Some (JObj sm)
                 \<and> (\<forall>k. sm k = (case own_props (or_empty (own_props v sec)) k of
                                   Some x \<Rightarrow> Some x
                                 | None \<Rightarrow> path2 base sec k)))
           \<and> (\<forall>k. k \<notin> sections \<longrightarrow> m k = own_props v k)"
      by (intro exI [of _ "merged v"]) blast
  qed
  with load_absent load_bad load_example load_encode [of s]
  show ?thesis by blast
qed

theorem loadState_merges_fieldwise_witness:
  "JObj [''best'' \<mapsto> JObj [''totalXP'' \<mapsto> JNum 500]] \<noteq> JNull
   \<and> ''best'' \<in> sections
   \<and> (\<exists>m sm. loadState (JsonText (JObj [''best'' \<mapsto> JObj [''totalXP'' \<mapsto> JNum 500]]))
                 = Inr (JObj m)
          \<and> m ''best'' = Some (JObj sm)
          \<and> sm ''totalXP'' = Some (JNum 500) \<and> sm ''highScore'' = Some (JNum 0))
   \<and> loadState NoItem = Inr base
   \<and> loadState (saveState base) = Inr base"
proof -
  let ?v = "JObj [''best'' \<mapsto> JObj [''totalXP'' \<mapsto> JNum 500]]"
  have ne: "?v \<noteq> JNull" by simp
  have sec: "''best'' \<in> sections" by (simp add: sections_def)
  note inst = loadState_merges_fieldwise [where v = ?v and s = base_state]
  from inst ne obtain m where m: "loadState (JsonText ?v) = Inr (JObj m)"
    "\<forall>sec\<in>sections. \<exists>sm. m sec = Some (JObj sm)
        \<and> (\<forall>k. sm k = (case own_props (or_empty (own_props ?v sec)) k of
                          Some x \<Rightarrow> Some x
                        | None \<Rightarrow> path2 base sec k))"
    by blast
  from m(2) sec obtain sm where sm: "m ''best'' = Some (JObj sm)"
    "\<forall>k. sm k = (case own_props (or_empty (own_props ?v ''best'')) k of
                    Some x \<Rightarrow> Some x
                  | None \<Rightarrow> path2 base ''best'' k)"
    by blast
  from sm(2) have "sm ''totalXP'' = Some (JNum 500)" "sm ''highScore'' = Some (JNum 0)"
    by (simp_all add: path2_def base_defs)
  with m(1) sm(1) have ex: "\<exists>m sm. loadState (JsonText ?v) = Inr (JObj m)
          \<and> m ''best'' = Some (JObj sm)
          \<and> sm ''totalXP'' = Some (JNum 500) \<and> sm ''highScore'' = Some (JNum 0)"
    by blast
  from inst have "loadState NoItem = Inr base" "loadState (saveState base) = Inr base"
    by (simp_all add: encode_base)
  with ne sec ex show ?thesis by blast
qed

text \<open>
  The claim as stated, every invalid field replaced by its default, fails for a stored
  \<open>best.totalXP\<close> that is a string: it is loaded as it is, not as the default 0.
\<close>

theorem loadState_keeps_invalid_field_counterexample:
  "loadState (JsonText (JObj [''best'' \<mapsto> JObj [''totalXP'' \<mapsto> JStr ''abc'']]))
     = Inr (JObj ((own_props base)
                   (''best'' \<mapsto> JObj [''highScore'' \<mapsto> JNum 0, ''bestStreak'' \<mapsto> JNum 0,
                                           ''totalXP'' \<mapsto> JStr ''abc''])))
   \<and> path2 base ''best'' ''totalXP'' = Some (JNum 0)
   \<and> JStr ''abc'' \<noteq> JNum 0"
  by (simp add: loadState_def base_defs path2_def fun_eq_iff)

end
